theory Spec2Isabelle
  imports Complex_Main "HOL-Library.AList" "HOL-Library.Sublist"
begin

section \<open>Values, exceptions and responses\<close>

text \<open>
  Rows of the datastore, request bodies and model replies are JSON values. A Python
  \<^verbatim>\<open>dict\<close> is an association list in insertion order; Python's \<^verbatim>\<open>int\<close> and
  \<^verbatim>\<open>float\<close> are both read as exact rationals (binary rounding error of float
  arithmetic, infinities and NaN are outside this model).
\<close>

datatype json =
    JNull
  | JBool bool
  | JNum rat
  | JStr string
  | JArr "json list"
  | JObj "(string \<times> json) list"

type_synonym row = "(string \<times> json) list"

text \<open>
  An exception is either FastAPI's \<^verbatim>\<open>HTTPException(status_code, detail)\<close> or any other
  Python exception, kept as its class name and its \<^verbatim>\<open>str()\<close>.
\<close>

datatype exn =
    HTTPException nat string
  | Error string string

datatype response =
    Ok json
  | Failed nat string

fun status_code :: "response \<Rightarrow> nat" where
  "status_code (Ok body) = 200"
| "status_code (Failed s d) = s"

fun body_of :: "response \<Rightarrow> row" where
  "body_of (Ok (JObj d)) = d"
| "body_of r = []"

definition digit_char :: "nat \<Rightarrow> char" where
  "digit_char d = ''0123456789'' ! d"

function str_nat :: "nat \<Rightarrow> string" where
  "str_nat n = (if n < 10 then [digit_char n] else str_nat (n div 10) @ [digit_char (n mod 10)])"
  by pat_completeness auto
termination
  by (relation "measure (\<lambda>n. n)") auto

declare str_nat.simps [simp del]

fun str_exn :: "exn \<Rightarrow> string" where
  "str_exn (HTTPException s d) = str_nat s @ '': '' @ d"
| "str_exn (Error cls msg) = msg"

text \<open>FastAPI turns what a handler returns or raises into the HTTP response.\<close>

fun respond :: "(exn + json) \<Rightarrow> response" where
  "respond (Inr body) = Ok body"
| "respond (Inl (HTTPException s d)) = Failed s d"
| "respond (Inl (Error cls msg)) = Failed 500 ''Internal Server Error''"

section \<open>The Python runtime, the model backends and the clock\<close>

text \<open>
  What the handlers call but this repository does not define is a parameter: the two
  text-generation backends and the embedding backend (one function of the call made),
  \<^verbatim>\<open>json.loads\<close>, \<^verbatim>\<open>json.dumps\<close>, \<^verbatim>\<open>str()\<close> of numbers and containers, the
  \<^verbatim>\<open>:,.0f\<close> format, \<^verbatim>\<open>str.title\<close>, \<^verbatim>\<open>float()\<close> of a string, \<^verbatim>\<open>uuid4\<close>, the
  datastore's \<^verbatim>\<open>ilike\<close> and date comparison, its sort, and the clock.
\<close>

datatype llm_call =
    Chat string string string
  | Claude string nat string
  | Embedding string string

fun prompt_of :: "llm_call \<Rightarrow> string" where
  "prompt_of (Chat model system user) = user"
| "prompt_of (Claude model max_tokens user) = user"
| "prompt_of (Embedding model input) = input"

record env =
  backend :: "llm_call \<Rightarrow> exn + json"
  json_loads :: "string \<Rightarrow> json option"
  json_dumps :: "json \<Rightarrow> string"
  repr :: "json \<Rightarrow> string"
  format_thousands :: "rat \<Rightarrow> string"
  title :: "string \<Rightarrow> string"
  parse_float :: "string \<Rightarrow> rat option"
  uuid4 :: "nat \<Rightarrow> string"
  ilike :: "string \<Rightarrow> json \<Rightarrow> bool"
  date_gte :: "json \<Rightarrow> string \<Rightarrow> bool"
  order_desc :: "string \<Rightarrow> row list \<Rightarrow> row list"
  days_ago :: "int \<Rightarrow> string option"

section \<open>Python built-ins used by the handlers\<close>

definition py_get :: "row \<Rightarrow> string \<Rightarrow> json \<Rightarrow> json" where
  "py_get d k dflt = (case map_of d k of None \<Rightarrow> dflt | Some v \<Rightarrow> v)"

definition py_index :: "row \<Rightarrow> string \<Rightarrow> exn + json" where
  "py_index d k =
     (case map_of d k of
        None \<Rightarrow> Inl (Error ''KeyError'' ([CHR 0x27] @ k @ [CHR 0x27]))
      | Some v \<Rightarrow> Inr v)"

definition dict_update :: "row \<Rightarrow> row \<Rightarrow> row" where
  "dict_update d r = foldl (\<lambda>acc kv. AList.update (fst kv) (snd kv) acc) d r"

fun truthy :: "json \<Rightarrow> bool" where
  "truthy JNull = False"
| "truthy (JBool b) = b"
| "truthy (JNum r) = (r \<noteq> 0)"
| "truthy (JStr s) = (s \<noteq> [])"
| "truthy (JArr xs) = (xs \<noteq> [])"
| "truthy (JObj d) = (d \<noteq> [])"

fun py_str :: "env \<Rightarrow> json \<Rightarrow> string" where
  "py_str e (JStr s) = s"
| "py_str e JNull = ''None''"
| "py_str e (JBool b) = (if b then ''True'' else ''False'')"
| "py_str e v = repr e v"

fun py_iter :: "json \<Rightarrow> exn + json list" where
  "py_iter (JArr xs) = Inr xs"
| "py_iter (JStr s) = Inr (map (\<lambda>c. JStr [c]) s)"
| "py_iter (JObj d) = Inr (map (\<lambda>kv. JStr (fst kv)) d)"
| "py_iter v = Inl (Error ''TypeError'' ''object is not iterable'')"

fun is_str :: "json \<Rightarrow> bool" where
  "is_str (JStr s) = True"
| "is_str v = False"

fun str_of :: "json \<Rightarrow> string" where
  "str_of (JStr s) = s"
| "str_of v = []"

fun join_with :: "string \<Rightarrow> string list \<Rightarrow> string" where
  "join_with sep [] = []"
| "join_with sep [x] = x"
| "join_with sep (x # y # ys) = x @ sep @ join_with sep (y # ys)"

definition py_join :: "string \<Rightarrow> json \<Rightarrow> exn + string" where
  "py_join sep v =
     (case py_iter v of
        Inl x \<Rightarrow> Inl (Error ''TypeError'' ''can only join an iterable'')
      | Inr xs \<Rightarrow>
          if list_all is_str xs then Inr (join_with sep (map str_of xs))
          else Inl (Error ''TypeError'' ''sequence item: expected str instance''))"

definition is_space :: "char \<Rightarrow> bool" where
  "is_space c = (c \<in> set [CHR 0x20, CHR 0x09, CHR 0x0A, CHR 0x0B, CHR 0x0C, CHR 0x0D])"

definition strip :: "string \<Rightarrow> string" where
  "strip s = rev (dropWhile is_space (rev (dropWhile is_space s)))"

fun py_number :: "json \<Rightarrow> rat option" where
  "py_number (JNum r) = Some r"
| "py_number (JBool b) = Some (if b then 1 else 0)"
| "py_number v = None"

definition py_float :: "env \<Rightarrow> json \<Rightarrow> exn + rat" where
  "py_float e v =
     (case v of
        JStr s \<Rightarrow>
          (case parse_float e s of
             None \<Rightarrow> Inl (Error ''ValueError'' ''could not convert string to float'')
           | Some r \<Rightarrow> Inr r)
      | _ \<Rightarrow>
          (case py_number v of
             None \<Rightarrow> Inl (Error ''TypeError'' ''float() argument must be a string or a real number'')
           | Some r \<Rightarrow> Inr r))"

text \<open>\<^verbatim>\<open>round(x, 2)\<close>: to the nearest hundredth, a tie to the even neighbour.\<close>

definition round_half_even :: "rat \<Rightarrow> int" where
  "round_half_even y =
     (let f = \<lfloor>y\<rfloor>; d = y - of_int f
      in if d < 1 / 2 then f else if 1 / 2 < d then f + 1 else if even f then f else f + 1)"

definition round2 :: "rat \<Rightarrow> rat" where
  "round2 x = of_int (round_half_even (x * 100)) / 100"

definition json_loads_str :: "env \<Rightarrow> json \<Rightarrow> exn + json" where
  "json_loads_str e content =
     (case content of
        JStr s \<Rightarrow>
          (case json_loads e s of
             None \<Rightarrow> Inl (Error ''JSONDecodeError'' ''Expecting value'')
           | Some v \<Rightarrow> Inr v)
      | _ \<Rightarrow> Inl (Error ''TypeError'' ''the JSON object must be str, bytes or bytearray''))"

section \<open>The datastore\<close>

text \<open>
  The datastore is the one the repository's tests run the routes against
  (\<^verbatim>\<open>FakeSupabase\<close>, \<^verbatim>\<open>FakeTable\<close>): a dict from table names to lists of rows. The world
  also counts the \<^verbatim>\<open>uuid4()\<close> draws made so far and logs every call issued to a model
  backend, oldest first.
\<close>

record world =
  storage :: "(string \<times> row list) list"
  uuids :: nat
  calls :: "llm_call list"

definition table_rows :: "world \<Rightarrow> string \<Rightarrow> row list" where
  "table_rows w name = (case map_of (storage w) name of None \<Rightarrow> [] | Some rs \<Rightarrow> rs)"

definition set_table :: "string \<Rightarrow> row list \<Rightarrow> world \<Rightarrow> world" where
  "set_table name rs w = w\<lparr>storage := AList.update name rs (storage w)\<rparr>"

definition invoke :: "env \<Rightarrow> llm_call \<Rightarrow> world \<Rightarrow> (exn + json) \<times> world" where
  "invoke e c w = (backend e c, w\<lparr>calls := calls w @ [c]\<rparr>)"

text \<open>\<^verbatim>\<open>table(name).select().eq(field, value).execute()\<close> and \<^verbatim>\<open>.single()\<close>.\<close>

definition select_eq :: "world \<Rightarrow> string \<Rightarrow> string \<Rightarrow> json \<Rightarrow> row list" where
  "select_eq w name field v = filter (\<lambda>r. py_get r field JNull = v) (table_rows w name)"

definition single :: "row list \<Rightarrow> row option" where
  "single rs = (case rs of [] \<Rightarrow> None | r # rest \<Rightarrow> Some r)"

text \<open>\<^verbatim>\<open>if not data\<close> for the result of a \<^verbatim>\<open>single()\<close> select.\<close>

definition no_data :: "row option \<Rightarrow> bool" where
  "no_data r = (case r of None \<Rightarrow> True | Some d \<Rightarrow> d = [])"

definition ensure_id :: "env \<Rightarrow> string \<Rightarrow> row \<Rightarrow> nat \<Rightarrow> row \<times> nat" where
  "ensure_id e name record n =
     (if truthy (py_get record ''id'' JNull) then (record, n)
      else (AList.update ''id'' (JStr (name @ ''-'' @ uuid4 e n)) record, Suc n))"

definition handle_insert :: "env \<Rightarrow> string \<Rightarrow> row \<Rightarrow> world \<Rightarrow> row \<times> world" where
  "handle_insert e name payload w =
     (let (record, n) = ensure_id e name payload (uuids w)
      in (record, set_table name (table_rows w name @ [record]) (w\<lparr>uuids := n\<rparr>)))"

definition update_eq :: "string \<Rightarrow> row \<Rightarrow> string \<Rightarrow> json \<Rightarrow> world \<Rightarrow> world" where
  "update_eq name changes field v w =
     (case map_of (storage w) name of
        None \<Rightarrow> w
      | Some rs \<Rightarrow>
          set_table name
            (map (\<lambda>r. if py_get r field JNull = v then dict_update r changes else r) rs) w)"

definition select_in :: "world \<Rightarrow> string \<Rightarrow> string \<Rightarrow> json list \<Rightarrow> row list" where
  "select_in w name field vs = filter (\<lambda>r. py_get r field JNull \<in> set vs) (table_rows w name)"

section \<open>Lead scoring (routes/leads.py)\<close>

definition score_lead_text_1 :: string where
  \<open>score_lead_text_1 =
       ''\<newline>''
     @ ''        Analyze this landscaping lead and provide a quality score from 0-100.\<newline>''
     @ ''\<newline>''
     @ ''        Lead Information:\<newline>''
     @ ''        - Name: ''\<close>

definition score_lead_text_2 :: string where
  \<open>score_lead_text_2 =
       '' ''\<close>

definition score_lead_text_3 :: string where
  \<open>score_lead_text_3 =
       ''\<newline>''
     @ ''        - Property Size: ''\<close>

definition score_lead_text_4 :: string where
  \<open>score_lead_text_4 =
       '' sq ft\<newline>''
     @ ''        - Services Interested: ''\<close>

definition score_lead_text_5 :: string where
  \<open>score_lead_text_5 =
       ''\<newline>''
     @ ''        - Source: ''\<close>

definition score_lead_text_6 :: string where
  \<open>score_lead_text_6 =
       ''\<newline>''
     @ ''        - Location: ''\<close>

definition score_lead_text_7 :: string where
  \<open>score_lead_text_7 =
       ''\<newline>''
     @ ''        - Contact Attempts: ''\<close>

definition score_lead_text_8 :: string where
  \<open>score_lead_text_8 =
       ''\<newline>''
     @ ''\<newline>''
     @ ''        Provide your response in JSON format:\<newline>''
     @ ''        {\<newline>''
     @ ''            "score": <number 0-100>,\<newline>''
     @ ''            "estimated_monthly_value": <number>,\<newline>''
     @ ''            "factors": {\<newline>''
     @ ''                "property_size": <number 0-25>,\<newline>''
     @ ''                "service_interest": <number 0-25>,\<newline>''
     @ ''                "source_quality": <number 0-25>,\<newline>''
     @ ''                "engagement": <number 0-25>\<newline>''
     @ ''            },\<newline>''
     @ ''            "explanation": "<brief explanation>",\<newline>''
     @ ''            "recommended_actions": ["<action 1>", "<action 2>"]\<newline>''
     @ ''        }\<newline>''
     @ ''        ''\<close>

definition score_lead_context :: "env \<Rightarrow> row \<Rightarrow> exn + string" where
  "score_lead_context e lead =
     (case py_join '', '' (py_get lead ''services_interested'' (JArr [])) of
        Inl x \<Rightarrow> Inl x
      | Inr services \<Rightarrow>
          Inr (score_lead_text_1 @ py_str e (py_get lead ''first_name'' (JStr []))
             @ score_lead_text_2 @ py_str e (py_get lead ''last_name'' (JStr []))
             @ score_lead_text_3 @ py_str e (py_get lead ''property_size_sqft'' (JStr ''Unknown''))
             @ score_lead_text_4 @ services
             @ score_lead_text_5 @ py_str e (py_get lead ''source'' (JStr ''Unknown''))
             @ score_lead_text_6 @ json_dumps e (py_get lead ''property_address'' (JObj []))
             @ score_lead_text_7 @ py_str e (py_get lead ''contact_attempts'' (JNum 0))
             @ score_lead_text_8))"

definition score_lead_system :: string where
  "score_lead_system = ''You are an expert at evaluating leads for a landscaping business. Provide accurate scoring and actionable insights.''"

definition score_result :: "string \<Rightarrow> row \<Rightarrow> json" where
  "score_result lead_id result =
     JObj [(''lead_id'', JStr lead_id),
           (''score'', py_get result ''score'' (JNum 50)),
           (''estimated_monthly_value'', py_get result ''estimated_monthly_value'' (JNum 0)),
           (''factors'', py_get result ''factors'' (JObj [])),
           (''explanation'', py_get result ''explanation'' (JStr [])),
           (''recommended_actions'', py_get result ''recommended_actions'' (JArr []))]"

text \<open>The body of the \<^verbatim>\<open>try\<close> block of \<^verbatim>\<open>score_lead\<close>.\<close>

definition score_lead_try :: "env \<Rightarrow> string \<Rightarrow> world \<Rightarrow> (exn + json) \<times> world" where
  "score_lead_try e lead_id w =
     (let lead = single (select_eq w ''leads'' ''id'' (JStr lead_id))
      in if no_data lead then (Inl (HTTPException 404 ''Lead not found''), w)
         else
           (case score_lead_context e (the lead) of
              Inl x \<Rightarrow> (Inl x, w)
            | Inr context \<Rightarrow>
                (case invoke e (Chat ''gpt-4'' score_lead_system context) w of
                   (Inl x, w1) \<Rightarrow> (Inl x, w1)
                 | (Inr content, w1) \<Rightarrow>
                     (case json_loads_str e content of
                        Inl x \<Rightarrow> (Inl x, w1)
                      | Inr (JObj result) \<Rightarrow> (Inr (score_result lead_id result), w1)
                      | Inr other \<Rightarrow>
                          (Inl (Error ''AttributeError'' ''object has no attribute get''), w1)))))"

text \<open>\<^verbatim>\<open>except HTTPException: raise\<close>, then \<^verbatim>\<open>except Exception\<close> wrapping into a 500.\<close>

definition score_lead :: "env \<Rightarrow> string \<Rightarrow> world \<Rightarrow> (exn + json) \<times> world" where
  "score_lead e lead_id w =
     (case score_lead_try e lead_id w of
        (Inl (HTTPException s d), w1) \<Rightarrow> (Inl (HTTPException s d), w1)
      | (Inl x, w1) \<Rightarrow> (Inl (HTTPException 500 (''Lead scoring failed: '' @ str_exn x)), w1)
      | (Inr body, w1) \<Rightarrow> (Inr body, w1))"

text \<open>
  One turn of the loop of \<^verbatim>\<open>batch_score_leads\<close>. \<^verbatim>\<open>None\<close>: the item raised inside the
  inner \<^verbatim>\<open>try\<close> and was skipped. A row without \<^verbatim>\<open>id\<close> raises \<^verbatim>\<open>KeyError\<close> a second time,
  in the \<^verbatim>\<open>except\<close> clause that prints it, and so leaves the loop.
\<close>

definition batch_item :: "env \<Rightarrow> row \<Rightarrow> world \<Rightarrow> (exn + json option) \<times> world" where
  "batch_item e lead w =
     (case py_index lead ''id'' of
        Inl x \<Rightarrow> (Inl x, w)
      | Inr (JStr lid) \<Rightarrow>
          (case score_lead e lid w of
             (Inl x, w1) \<Rightarrow> (Inr None, w1)
           | (Inr (JObj res), w1) \<Rightarrow>
               (Inr (Some (JObj res)),
                update_eq ''leads''
                  [(''score'', py_get res ''score'' JNull),
                   (''score_factors'', py_get res ''factors'' JNull),
                   (''estimated_monthly_value'', py_get res ''estimated_monthly_value'' JNull)]
                  ''id'' (JStr lid) w1)
           | (Inr other, w1) \<Rightarrow> (Inr None, w1))
      | Inr other \<Rightarrow> (Inr None, w))"

fun batch_loop ::
  "env \<Rightarrow> row list \<Rightarrow> nat \<Rightarrow> json list \<Rightarrow> world \<Rightarrow> (exn + nat \<times> json list) \<times> world" where
  "batch_loop e [] scored_count results w = (Inr (scored_count, results), w)"
| "batch_loop e (lead # leads) scored_count results w =
     (case batch_item e lead w of
        (Inl x, w1) \<Rightarrow> (Inl x, w1)
      | (Inr None, w1) \<Rightarrow> batch_loop e leads scored_count results w1
      | (Inr (Some r), w1) \<Rightarrow> batch_loop e leads (scored_count + 1) (results @ [r]) w1)"

definition batch_score_leads :: "env \<Rightarrow> string list \<Rightarrow> world \<Rightarrow> (exn + json) \<times> world" where
  "batch_score_leads e lead_ids w =
     (let leads = select_in w ''leads'' ''id'' (map JStr lead_ids)
      in case batch_loop e leads 0 [] w of
           (Inl x, w1) \<Rightarrow> (Inl (HTTPException 500 (''Batch scoring failed: '' @ str_exn x)), w1)
         | (Inr (scored_count, results), w1) \<Rightarrow>
             (Inr (JObj [(''message'', JStr (''Scored '' @ str_nat scored_count @ '' of ''
                                            @ str_nat (length lead_ids) @ '' leads'')),
                         (''scored_count'', JNum (of_nat scored_count)),
                         (''results'', JArr results)]),
              w1))"

abbreviation (input) id_of :: "row \<Rightarrow> json" where
  "id_of r \<equiv> py_get r ''id'' JNull"

text \<open>What one fetched lead contributes to the results of a batch: its score, or nothing.\<close>

definition outcome :: "env \<Rightarrow> world \<Rightarrow> row \<Rightarrow> json list" where
  "outcome e w lead =
     (case fst (score_lead e (str_of (id_of lead)) w) of Inl x \<Rightarrow> [] | Inr r \<Rightarrow> [r])"



section \<open>Customer embeddings (routes/ai.py) and the upsert of the datastore\<close>

fun split_on :: "char \<Rightarrow> string \<Rightarrow> string list" where
  "split_on c [] = [[]]"
| "split_on c (x # xs) =
     (if x = c then [] # split_on c xs
      else (case split_on c xs of [] \<Rightarrow> [[x]] | h # t \<Rightarrow> (x # h) # t))"

definition conflicts :: "string list \<Rightarrow> row \<Rightarrow> row \<Rightarrow> bool" where
  "conflicts key_fields record stored =
     (key_fields \<noteq> [] \<and> list_all (\<lambda>f. py_get stored f JNull = py_get record f JNull) key_fields)"

fun merge_first :: "(row \<Rightarrow> bool) \<Rightarrow> row \<Rightarrow> row list \<Rightarrow> row list" where
  "merge_first P record [] = []"
| "merge_first P record (stored # rest) =
     (if P stored then dict_update stored record # rest else stored # merge_first P record rest)"

text \<open>\<^verbatim>\<open>FakeSupabase._handle_upsert\<close>: the first stored row that agrees with the payload on
  every conflict field is merged with it; without conflict fields, or without such a row,
  the payload is appended under a fresh id.\<close>

definition handle_upsert :: "env \<Rightarrow> string \<Rightarrow> row \<Rightarrow> string option \<Rightarrow> world \<Rightarrow> row \<times> world" where
  "handle_upsert e name payload on_conflict w =
     (let key_fields =
            (case on_conflict of
               None \<Rightarrow> []
             | Some s \<Rightarrow> if s = [] then [] else map strip (split_on CHR '','' s));
          rows = table_rows w name;
          existing = find (conflicts key_fields payload) rows
      in if existing \<noteq> None \<and> existing \<noteq> Some []
         then (dict_update (the existing) payload,
               set_table name (merge_first (conflicts key_fields payload) payload rows) w)
         else (let (target, n) = ensure_id e name payload (uuids w)
               in (target, set_table name (rows @ [target]) (w\<lparr>uuids := n\<rparr>))))"

definition embedding_model :: string where
  "embedding_model = ''text-embedding-3-small''"

definition embedding_text_1 :: string where
  \<open>embedding_text_1 =
       ''\<newline>''
     @ ''        Customer: ''\<close>

definition embedding_text_2 :: string where
  \<open>embedding_text_2 =
       '' ''\<close>

definition embedding_text_3 :: string where
  \<open>embedding_text_3 =
       ''\<newline>''
     @ ''        Location: ''\<close>

definition embedding_text_4 :: string where
  \<open>embedding_text_4 =
       ''\<newline>''
     @ ''        Tags: ''\<close>

definition embedding_text_5 :: string where
  \<open>embedding_text_5 =
       ''\<newline>''
     @ ''        Notes: ''\<close>

definition embedding_text_6 :: string where
  \<open>embedding_text_6 =
       ''\<newline>''
     @ ''        ''\<close>

definition customer_embedding_text :: "env \<Rightarrow> row \<Rightarrow> exn + string" where
  "customer_embedding_text e customer =
     (case py_get customer ''billing_address'' (JObj []) of
        JObj address \<Rightarrow>
          (case py_join '', '' (py_get customer ''tags'' (JArr [])) of
             Inl x \<Rightarrow> Inl x
           | Inr tags \<Rightarrow>
               Inr (embedding_text_1 @ py_str e (py_get customer ''first_name'' JNull)
                  @ embedding_text_2 @ py_str e (py_get customer ''last_name'' JNull)
                  @ embedding_text_3 @ py_str e (py_get address ''city'' (JStr []))
                  @ embedding_text_4 @ tags
                  @ embedding_text_5 @ py_str e (py_get customer ''notes'' (JStr []))
                  @ embedding_text_6))
      | other \<Rightarrow> Inl (Error ''AttributeError'' ''object has no attribute get''))"

definition customer_embedding_try :: "env \<Rightarrow> string \<Rightarrow> world \<Rightarrow> (exn + json) \<times> world" where
  "customer_embedding_try e customer_id w =
     (let customer = single (select_eq w ''customers'' ''id'' (JStr customer_id))
      in if no_data customer then (Inl (HTTPException 404 ''Customer not found''), w)
         else
           (case customer_embedding_text e (the customer) of
              Inl x \<Rightarrow> (Inl x, w)
            | Inr embedding_text \<Rightarrow>
                (case invoke e (Embedding embedding_model (strip embedding_text)) w of
                   (Inl x, w1) \<Rightarrow> (Inl x, w1)
                 | (Inr embedding, w1) \<Rightarrow>
                     (let (stored, w2) =
                            handle_upsert e ''customer_embeddings''
                              [(''customer_id'', JStr customer_id),
                               (''embedding'', embedding),
                               (''embedding_text'', JStr (strip embedding_text)),
                               (''model'', JStr embedding_model)]
                              None w1
                      in (Inr (JObj [(''message'', JStr ''Customer embedding generated successfully''),
                                     (''customer_id'', JStr customer_id)]),
                          w2)))))"

definition generate_customer_embedding :: "env \<Rightarrow> string \<Rightarrow> world \<Rightarrow> (exn + json) \<times> world" where
  "generate_customer_embedding e customer_id w =
     (case customer_embedding_try e customer_id w of
        (Inl (HTTPException s d), w1) \<Rightarrow> (Inl (HTTPException s d), w1)
      | (Inl x, w1) \<Rightarrow>
          (Inl (HTTPException 500 (''Failed to generate customer embedding: '' @ str_exn x)), w1)
      | (Inr body, w1) \<Rightarrow> (Inr body, w1))"

section \<open>Ad generation (routes/ads.py)\<close>

record ad_generation_request =
  campaign_id :: string
  neighborhood_ids :: "string list"
  ad_type :: string
  platforms :: "string list"
  tone :: "string option"
  promotion :: "row option"
  use_model :: "string option"

definition opt_str :: "string option \<Rightarrow> json" where
  "opt_str s = (case s of None \<Rightarrow> JNull | Some t \<Rightarrow> JStr t)"

text \<open>The \<^verbatim>\<open>:,.0f\<close> format of a number; anything else raises.\<close>

definition py_format_thousands :: "env \<Rightarrow> json \<Rightarrow> exn + string" where
  "py_format_thousands e v =
     (case py_number v of
        None \<Rightarrow> Inl (Error ''TypeError'' ''unsupported format string'')
      | Some r \<Rightarrow> Inr (format_thousands e r))"

definition ad_text_1 :: string where
  \<open>ad_text_1 =
       ''\<newline>''
     @ ''            Generate a hyper-local ''\<close>

definition ad_text_2 :: string where
  \<open>ad_text_2 =
       '' ad for a lawn care and landscaping business.\<newline>''
     @ ''\<newline>''
     @ ''            Target Neighborhood: ''\<close>

definition ad_text_3 :: string where
  \<open>ad_text_3 =
       ''\<newline>''
     @ ''            City: ''\<close>

definition ad_text_4 :: string where
  \<open>ad_text_4 =
       ''\<newline>''
     @ ''            State: ''\<close>

definition ad_text_5 :: string where
  \<open>ad_text_5 =
       ''\<newline>''
     @ ''\<newline>''
     @ ''            Neighborhood Characteristics:\<newline>''
     @ ''            - Soil Type: ''\<close>

definition ad_text_6 :: string where
  \<open>ad_text_6 =
       ''\<newline>''
     @ ''            - USDA Hardiness Zone: ''\<close>

definition ad_text_7 :: string where
  \<open>ad_text_7 =
       ''\<newline>''
     @ ''            - Common Grass Types: ''\<close>

definition ad_text_8 :: string where
  \<open>ad_text_8 =
       ''\<newline>''
     @ ''            - Average Home Value: $''\<close>

definition ad_text_9 :: string where
  \<open>ad_text_9 =
       ''\<newline>''
     @ ''            - Household Count: ''\<close>

definition ad_text_10 :: string where
  \<open>ad_text_10 =
       ''\<newline>''
     @ ''\<newline>''
     @ ''            Ad Requirements:\<newline>''
     @ ''            - Tone: ''\<close>

definition ad_text_11 :: string where
  \<open>ad_text_11 =
       ''\<newline>''
     @ ''            - Platform(s): ''\<close>

definition ad_text_12 :: string where
  \<open>ad_text_12 =
       ''\<newline>''
     @ ''            - Ad Type: ''\<close>

definition ad_text_13 :: string where
  \<open>ad_text_13 =
       ''\<newline>''
     @ ''\<newline>''
     @ ''            ''\<close>

definition ad_text_14 :: string where
  \<open>ad_text_14 =
       ''\<newline>''
     @ ''\<newline>''
     @ ''            IMPORTANT - Create ad copy that:\<newline>''
     @ ''            1. STARTS with an engaging LOCAL FACTOID about growing in this specific neighborhood\<newline>''
     @ ''               Examples of great factoids:\<newline>''
     @ ''               - "Oak Ridge gardeners: Did you know our clay-loam soil retains 40% more moisture than sandy soil? Perfect for tomatoes!"\<newline>''
     @ ''               - "Maple Heights: Your Zone 5b allows 180+ growing days - longer than 60% of Illinois!"\<newline>''
     @ ''               - "River Bend'' @ [CHR 0x27] @ ''s sandy soil drains fast - that'' @ [CHR 0x27] @ ''s why your garden needs watering 2x more than Oak Ridge neighbors"\<newline>''
     @ ''               - "Your Kentucky Bluegrass loves our Zone 5b climate - but it needs the RIGHT fertilization schedule"\<newline>''
     @ ''\<newline>''
     @ ''            2. The factoid should be SPECIFIC to this neighborhood'' @ [CHR 0x27] @ ''s soil type, zone, or grass type\<newline>''
     @ ''            3. Make it surprising, useful, or create "aha!" moment\<newline>''
     @ ''            4. Then transition to your lawn care service offer\<newline>''
     @ ''            5. Mentions the neighborhood by name for local appeal\<newline>''
     @ ''            6. Includes a strong call-to-action\<newline>''
     @ ''\<newline>''
     @ ''            For each platform, provide:\<newline>''
     @ ''            - Local Factoid: A surprising, useful fact about growing/gardening in THIS specific neighborhood\<newline>''
     @ ''            - Headline (max 40 characters for Instagram, 150 for Facebook)\<newline>''
     @ ''            - Body text (starts with the factoid, then transitions to service offer)\<newline>''
     @ ''            - Call-to-action (Learn More, Get Quote, Sign Up, etc.)\<newline>''
     @ ''            - 3-5 relevant hashtags (for Instagram/Twitter)\<newline>''
     @ ''\<newline>''
     @ ''            Provide response in JSON format:\<newline>''
     @ ''            {\<newline>''
     @ ''                "variants": [\<newline>''
     @ ''                    {\<newline>''
     @ ''                        "platform": "facebook",\<newline>''
     @ ''                        "local_factoid": "<surprising local gardening fact specific to this neighborhood>",\<newline>''
     @ ''                        "headline": "<headline>",\<newline>''
     @ ''                        "body": "<body text starting with factoid>",\<newline>''
     @ ''                        "cta": "<call to action>",\<newline>''
     @ ''                        "hashtags": ["#tag1", "#tag2"]\<newline>''
     @ ''                    }\<newline>''
     @ ''                ]\<newline>''
     @ ''            }\<newline>''
     @ ''            ''\<close>

definition ad_context :: "env \<Rightarrow> ad_generation_request \<Rightarrow> row \<Rightarrow> exn + string" where
  "ad_context e request neighborhood =
     (case py_join '', '' (py_get neighborhood ''common_grass_types'' (JArr [])) of
        Inl x \<Rightarrow> Inl x
      | Inr grass_types \<Rightarrow>
          (case py_format_thousands e (py_get neighborhood ''avg_home_value'' (JNum 0)) of
             Inl x \<Rightarrow> Inl x
           | Inr home_value \<Rightarrow>
               Inr (ad_text_1 @ ad_type request
                  @ ad_text_2 @ py_str e (py_get neighborhood ''name'' (JStr ''Unknown''))
                  @ ad_text_3 @ py_str e (py_get neighborhood ''city'' (JStr []))
                  @ ad_text_4 @ py_str e (py_get neighborhood ''state'' (JStr []))
                  @ ad_text_5 @ py_str e (py_get neighborhood ''soil_type'' (JStr ''mixed''))
                  @ ad_text_6 @ py_str e (py_get neighborhood ''usda_hardiness_zone'' (JStr ''5b''))
                  @ ad_text_7 @ grass_types
                  @ ad_text_8 @ home_value
                  @ ad_text_9 @ py_str e (py_get neighborhood ''household_count'' (JStr ''N/A''))
                  @ ad_text_10 @ py_str e (opt_str (tone request))
                  @ ad_text_11 @ join_with '', '' (platforms request)
                  @ ad_text_12 @ ad_type request
                  @ ad_text_13
                  @ (case promotion request of
                       None \<Rightarrow> []
                     | Some p \<Rightarrow> if p = [] then [] else ''Promotion: '' @ repr e (JObj p))
                  @ ad_text_14)))"

definition ad_system :: string where
  "ad_system = ''You are an expert local marketing copywriter specializing in lawn care and landscaping services. You create hyper-local, compelling ad copy.''"

definition ad_call :: "ad_generation_request \<Rightarrow> string \<Rightarrow> llm_call" where
  "ad_call request context =
     (if use_model request = Some ''claude''
      then Claude ''claude-3-5-sonnet-20241022'' 2000 context
      else Chat ''gpt-4'' ad_system context)"

text \<open>The dict literal \<^verbatim>\<open>creative_data\<close>, its entries evaluated in order.\<close>

definition creative_data ::
  "env \<Rightarrow> ad_generation_request \<Rightarrow> row \<Rightarrow> string \<Rightarrow> string \<Rightarrow> json \<Rightarrow> exn + row" where
  "creative_data e request neighborhood neighborhood_id context variant =
     (case variant of
        JObj v \<Rightarrow>
          (case py_index v ''platform'' of
             Inl x \<Rightarrow> Inl x
           | Inr (JStr platform) \<Rightarrow>
               (case py_index v ''headline'' of
                  Inl x \<Rightarrow> Inl x
                | Inr headline \<Rightarrow>
                    (case py_index v ''body'' of
                       Inl x \<Rightarrow> Inl x
                     | Inr body \<Rightarrow>
                         (case py_index v ''cta'' of
                            Inl x \<Rightarrow> Inl x
                          | Inr cta \<Rightarrow>
                              Inr [(''campaign_id'', JStr (campaign_id request)),
                                   (''name'', JStr (py_str e (py_get neighborhood ''name'' JNull)
                                                     @ '' - '' @ title e platform)),
                                   (''ad_type'', JStr (ad_type request)),
                                   (''headline'', headline),
                                   (''body_text'', body),
                                   (''call_to_action'', cta),
                                   (''neighborhood_id'', JStr neighborhood_id),
                                   (''hyper_local_content'', variant),
                                   (''generated_by'', JStr ''ai''),
                                   (''ai_model'', opt_str (use_model request)),
                                   (''generation_prompt'', JStr (take 500 context)),
                                   (''status'', JStr ''draft'')])))
           | Inr other \<Rightarrow> Inl (Error ''AttributeError'' ''object has no attribute title''))
      | other \<Rightarrow> Inl (Error ''TypeError'' ''indices must be integers''))"

fun store_variants ::
  "env \<Rightarrow> ad_generation_request \<Rightarrow> row \<Rightarrow> string \<Rightarrow> string \<Rightarrow> json list \<Rightarrow> json list \<Rightarrow> world
   \<Rightarrow> (exn + json list) \<times> world" where
  "store_variants e request neighborhood neighborhood_id context [] generated_ads w =
     (Inr generated_ads, w)"
| "store_variants e request neighborhood neighborhood_id context (variant # variants) generated_ads w =
     (case creative_data e request neighborhood neighborhood_id context variant of
        Inl x \<Rightarrow> (Inl x, w)
      | Inr data \<Rightarrow>
          (case handle_insert e ''ad_creatives'' data w of
             (stored, w1) \<Rightarrow>
               store_variants e request neighborhood neighborhood_id context variants
                 (generated_ads @ [JObj stored]) w1))"

text \<open>What the handler does for one neighbourhood that exists.\<close>

definition generate_for_neighborhood ::
  "env \<Rightarrow> ad_generation_request \<Rightarrow> row \<Rightarrow> string \<Rightarrow> json list \<Rightarrow> world
   \<Rightarrow> (exn + json list) \<times> world" where
  "generate_for_neighborhood e request neighborhood neighborhood_id generated_ads w =
     (case ad_context e request neighborhood of
        Inl x \<Rightarrow> (Inl x, w)
      | Inr context \<Rightarrow>
          (case invoke e (ad_call request context) w of
             (Inl x, w1) \<Rightarrow> (Inl x, w1)
           | (Inr content, w1) \<Rightarrow>
               (case json_loads_str e content of
                  Inl x \<Rightarrow> (Inl x, w1)
                | Inr (JObj ad_variants) \<Rightarrow>
                    (case py_iter (py_get ad_variants ''variants'' (JArr [])) of
                       Inl x \<Rightarrow> (Inl x, w1)
                     | Inr variants \<Rightarrow>
                         store_variants e request neighborhood neighborhood_id context variants
                           generated_ads w1)
                | Inr other \<Rightarrow> (Inl (Error ''AttributeError'' ''object has no attribute get''), w1))))"

fun neighborhoods_loop ::
  "env \<Rightarrow> ad_generation_request \<Rightarrow> string list \<Rightarrow> json list \<Rightarrow> world \<Rightarrow> (exn + json list) \<times> world" where
  "neighborhoods_loop e request [] generated_ads w = (Inr generated_ads, w)"
| "neighborhoods_loop e request (neighborhood_id # rest) generated_ads w =
     (case single (select_eq w ''neighborhoods'' ''id'' (JStr neighborhood_id)) of
        None \<Rightarrow> neighborhoods_loop e request rest generated_ads w
      | Some neighborhood \<Rightarrow>
          if neighborhood = [] then neighborhoods_loop e request rest generated_ads w
          else
            (case generate_for_neighborhood e request neighborhood neighborhood_id generated_ads w of
               (Inl x, w1) \<Rightarrow> (Inl x, w1)
             | (Inr generated, w1) \<Rightarrow> neighborhoods_loop e request rest generated w1))"

text \<open>The handler has one \<^verbatim>\<open>except Exception\<close> clause, which also catches the
  \<^verbatim>\<open>HTTPException\<close> raised for a missing campaign.\<close>

definition generate_neighborhood_ads ::
  "env \<Rightarrow> ad_generation_request \<Rightarrow> world \<Rightarrow> (exn + json) \<times> world" where
  "generate_neighborhood_ads e request w =
     (case (if no_data (single (select_eq w ''ad_campaigns'' ''id'' (JStr (campaign_id request))))
            then (Inl (HTTPException 404 ''Campaign not found''), w)
            else neighborhoods_loop e request (neighborhood_ids request) [] w) of
        (Inl x, w1) \<Rightarrow> (Inl (HTTPException 500 (''Ad generation failed: '' @ str_exn x)), w1)
      | (Inr generated_ads, w1) \<Rightarrow>
          (Inr (JObj [(''message'', JStr (''Generated '' @ str_nat (length generated_ads)
                                         @ '' ad variants across ''
                                         @ str_nat (length (neighborhood_ids request))
                                         @ '' neighborhoods'')),
                      (''ads'', JArr generated_ads),
                      (''model_used'', opt_str (use_model request))]),
           w1))"

text \<open>A stored creative carries the neighbourhood, the model name asked for and the first
  500 characters of a prompt.\<close>

definition tagged :: "ad_generation_request \<Rightarrow> string \<Rightarrow> string \<Rightarrow> row \<Rightarrow> bool" where
  "tagged request neighborhood_id context stored \<longleftrightarrow>
     py_get stored ''generation_prompt'' JNull = JStr (take 500 context)
     \<and> py_get stored ''neighborhood_id'' JNull = JStr neighborhood_id
     \<and> py_get stored ''ai_model'' JNull = opt_str (use_model request)"

text \<open>The optional neighbourhood fields of the ad template and their defaults.\<close>

definition ad_defaults :: row where
  "ad_defaults =
     [(''name'', JStr ''Unknown''), (''city'', JStr []), (''state'', JStr []),
      (''soil_type'', JStr ''mixed''), (''usda_hardiness_zone'', JStr ''5b''),
      (''common_grass_types'', JArr []), (''avg_home_value'', JNum 0),
      (''household_count'', JStr ''N/A'')]"


section \<open>Garden planning (routes/garden.py)\<close>

record personalized_garden_request =
  address :: string
  primary_goal :: "string list"
  time_commitment :: string
  experience_level :: string
  garden_size :: string
  harvest_preferences :: "string list"
  favorite_recipes :: "string option"
  email :: string
  phone :: "string option"

definition garden_text_1 :: string where
  \<open>garden_text_1 =
       ''\<newline>''
     @ ''You are an expert gardener helping a homeowner plan their vegetable garden.\<newline>''
     @ ''\<newline>''
     @ ''LOCATION:\<newline>''
     @ ''- Address: ''\<close>

definition garden_text_2 :: string where
  \<open>garden_text_2 =
       ''\<newline>''\<close>

definition garden_text_3 :: string where
  \<open>garden_text_3 =
       ''\<newline>''\<close>

definition garden_text_4 :: string where
  \<open>garden_text_4 =
       ''\<newline>''
     @ ''- Approximate Last Frost: April 15 (adjust based on zone)\<newline>''
     @ ''- Approximate First Frost: October 15 (adjust based on zone)\<newline>''
     @ ''\<newline>''
     @ ''USER PROFILE:\<newline>''
     @ ''- Primary Goals: ''\<close>

definition garden_text_5 :: string where
  \<open>garden_text_5 =
       ''\<newline>''
     @ ''- Time Available: ''\<close>

definition garden_text_6 :: string where
  \<open>garden_text_6 =
       '' \<newline>''
     @ ''- Experience Level: ''\<close>

definition garden_text_7 :: string where
  \<open>garden_text_7 =
       ''\<newline>''
     @ ''- Garden Size: ''\<close>

definition garden_text_8 :: string where
  \<open>garden_text_8 =
       ''\<newline>''
     @ ''- Harvest Preferences: ''\<close>

definition garden_text_9 :: string where
  \<open>garden_text_9 =
       ''\<newline>''\<close>

definition garden_text_10 :: string where
  \<open>garden_text_10 =
       ''\<newline>''
     @ ''\<newline>''
     @ ''TASK:\<newline>''
     @ ''Create a customized garden plan that:\<newline>''
     @ ''1. Matches their time commitment (if low, recommend easy, low-maintenance plants)\<newline>''
     @ ''2. Matches experience level (beginner = easy, forgiving varieties)\<newline>''
     @ ''3. Provides ingredients for their favorite recipes\<newline>''
     @ ''4. Fits in their garden size space constraints\<newline>''
     @ ''5. Maximizes their stated goals\<newline>''
     @ ''\<newline>''
     @ ''For each recommended plant, provide:\<newline>''
     @ ''- Plant name and specific variety (e.g., "Tomato - Cherokee Purple")\<newline>''
     @ ''- Quantity to plant\<newline>''
     @ ''- Why this fits their goals (one sentence)\<newline>''
     @ ''- Maintenance level (low/medium/high)\<newline>''
     @ ''- Which of their recipes/preferences it supports\<newline>''
     @ ''- Expected yield estimate\<newline>''
     @ ''- Key maintenance tasks\<newline>''
     @ ''\<newline>''
     @ ''Also provide:\<newline>''
     @ ''- Total weekly maintenance time estimate\<newline>''
     @ ''- Simple garden layout suggestion\<newline>''
     @ ''- Succession planting tips if applicable\<newline>''
     @ ''- Beginner-friendly tips for their experience level\<newline>''
     @ ''- Recipe harvest calendar (when they can make each dish)\<newline>''
     @ ''\<newline>''
     @ ''Return ONLY valid JSON in this exact structure:\<newline>''
     @ ''{\<newline>''
     @ ''    "garden_summary": {\<newline>''
     @ ''        "total_plants": 0,\<newline>''
     @ ''        "garden_size_recommended": "",\<newline>''
     @ ''        "estimated_weekly_maintenance": "",\<newline>''
     @ ''        "difficulty": "",\<newline>''
     @ ''        "first_harvest": "",\<newline>''
     @ ''        "peak_harvest": "",\<newline>''
     @ ''        "estimated_weekly_yield": ""\<newline>''
     @ ''    },\<newline>''
     @ ''    "plant_recommendations": [\<newline>''
     @ ''        {\<newline>''
     @ ''            "plant": "",\<newline>''
     @ ''            "quantity": 0,\<newline>''
     @ ''            "why": "",\<newline>''
     @ ''            "maintenance": "",\<newline>''
     @ ''            "recipes": [],\<newline>''
     @ ''            "yield": "",\<newline>''
     @ ''            "maintenance_tasks": []\<newline>''
     @ ''        }\<newline>''
     @ ''    ],\<newline>''
     @ ''    "garden_layout": {\<newline>''
     @ ''        "description": "",\<newline>''
     @ ''        "tips": []\<newline>''
     @ ''    },\<newline>''
     @ ''    "shopping_list": [\<newline>''
     @ ''        {\<newline>''
     @ ''            "item": "",\<newline>''
     @ ''            "quantity": "",\<newline>''
     @ ''            "estimated_price": ""\<newline>''
     @ ''        }\<newline>''
     @ ''    ],\<newline>''
     @ ''    "beginner_tips": [],\<newline>''
     @ ''    "recipe_harvest_calendar": {}\<newline>''
     @ ''}\<newline>''\<close>

text \<open>\<^verbatim>\<open>table(name).select().ilike(field, pattern).execute()\<close>.\<close>

definition select_ilike :: "env \<Rightarrow> world \<Rightarrow> string \<Rightarrow> string \<Rightarrow> string \<Rightarrow> row list" where
  "select_ilike e w name field pattern =
     filter (\<lambda>r. ilike e pattern (py_get r field JNull)) (table_rows w name)"

text \<open>Get or create the prospect. \<^verbatim>\<open>insert([row])\<close> with a one-element list stores the
  row and returns it, as \<^verbatim>\<open>insert(row)\<close> does.\<close>

definition prospect_data :: "personalized_garden_request \<Rightarrow> row" where
  "prospect_data request =
     [(''street_address'', JStr (address request)),
      (''contact_status'', JStr ''engaged''),
      (''email'', JStr (email request)),
      (''phone'', opt_str (phone request)),
      (''source'', JStr ''garden_planner'')]"

definition garden_prospect :: "env \<Rightarrow> personalized_garden_request \<Rightarrow> world \<Rightarrow> row \<times> world" where
  "garden_prospect e request w =
     (case select_ilike e w ''prospects'' ''street_address'' (''%'' @ address request @ ''%'') of
        prospect # others \<Rightarrow> (prospect, w)
      | [] \<Rightarrow> handle_insert e ''prospects'' (prospect_data request) w)"

definition garden_neighborhood :: "world \<Rightarrow> row \<Rightarrow> row option" where
  "garden_neighborhood w prospect =
     (if truthy (py_get prospect ''neighborhood_id'' JNull)
      then single (select_eq w ''neighborhoods'' ''id'' (py_get prospect ''neighborhood_id'' JNull))
      else None)"

definition garden_context :: "env \<Rightarrow> personalized_garden_request \<Rightarrow> row option \<Rightarrow> string" where
  "garden_context e request neighborhood =
     garden_text_1 @ address request
   @ garden_text_2
   @ (if no_data neighborhood then ''- USDA Zone: 5b (estimate)''
      else ''- USDA Zone: '' @ py_str e (py_get (the neighborhood) ''usda_hardiness_zone'' (JStr ''5b'')))
   @ garden_text_3
   @ (if no_data neighborhood then ''- Soil Type: loam (estimate)''
      else ''- Soil Type: '' @ py_str e (py_get (the neighborhood) ''soil_type'' (JStr ''loam'')))
   @ garden_text_4 @ join_with '', '' (primary_goal request)
   @ garden_text_5 @ time_commitment request
   @ garden_text_6 @ experience_level request
   @ garden_text_7 @ garden_size request
   @ garden_text_8 @ join_with '', '' (harvest_preferences request)
   @ garden_text_9
   @ (case favorite_recipes request of
        None \<Rightarrow> []
      | Some recipes \<Rightarrow> if recipes = [] then [] else ''- Favorite Recipes: '' @ recipes)
   @ garden_text_10"

definition garden_system :: string where
  "garden_system = ''You are a master gardener and educator who creates personalized, achievable garden plans. Always return valid JSON.''"

definition garden_plan_data :: "json \<Rightarrow> row option \<Rightarrow> json \<Rightarrow> row" where
  "garden_plan_data prospect_id neighborhood plan_data =
     [(''prospect_id'', prospect_id),
      (''year'', JNum 2024),
      (''usda_zone'',
         if no_data neighborhood then JStr ''5b''
         else py_get (the neighborhood) ''usda_hardiness_zone'' JNull),
      (''ai_generated_plan'', plan_data)]"

definition lead_data :: "personalized_garden_request \<Rightarrow> json \<Rightarrow> row" where
  "lead_data request prospect_id =
     [(''prospect_id'', prospect_id),
      (''source'', JStr ''garden_planner''),
      (''status'', JStr ''new''),
      (''email'', JStr (email request)),
      (''phone'', opt_str (phone request)),
      (''notes'', JStr (''Created garden plan. Goals: '' @ join_with '', '' (primary_goal request)
                       @ ''. Experience: '' @ experience_level request @ ''.''))]"

definition garden_plan_try ::
  "env \<Rightarrow> personalized_garden_request \<Rightarrow> world \<Rightarrow> (exn + json) \<times> world" where
  "garden_plan_try e request w =
     (case garden_prospect e request w of
        (prospect, w1) \<Rightarrow>
          (let neighborhood = garden_neighborhood w1 prospect;
               context = garden_context e request neighborhood
           in case invoke e (Chat ''gpt-4'' garden_system context) w1 of
                (Inl x, w2) \<Rightarrow> (Inl x, w2)
              | (Inr content, w2) \<Rightarrow>
                  (case json_loads_str e content of
                     Inl x \<Rightarrow> (Inl x, w2)
                   | Inr plan_data \<Rightarrow>
                       (case py_index prospect ''id'' of
                          Inl x \<Rightarrow> (Inl x, w2)
                        | Inr prospect_id \<Rightarrow>
                            (case handle_insert e ''garden_plans''
                                    (garden_plan_data prospect_id neighborhood plan_data) w2 of
                               (garden_plan, w3) \<Rightarrow>
                                 (case handle_insert e ''leads'' (lead_data request prospect_id) w3 of
                                    (lead, w4) \<Rightarrow>
                                      (case py_index garden_plan ''id'' of
                                         Inl x \<Rightarrow> (Inl x, w4)
                                       | Inr plan_id \<Rightarrow>
                                           (Inr (JObj [(''success'', JBool True),
                                                       (''message'', JStr ''Garden plan generated successfully!''),
                                                       (''garden_plan_id'', plan_id),
                                                       (''plan'', plan_data)]),
                                            w4))))))))"

definition generate_personalized_plan ::
  "env \<Rightarrow> personalized_garden_request \<Rightarrow> world \<Rightarrow> (exn + json) \<times> world" where
  "generate_personalized_plan e request w =
     (case garden_plan_try e request w of
        (Inl x, w1) \<Rightarrow>
          (Inl (HTTPException 500 (''Failed to generate garden plan: '' @ str_exn x)), w1)
      | (Inr body, w1) \<Rightarrow> (Inr body, w1))"

text \<open>The number of rows held by the datastore, over all its tables.\<close>

definition row_count :: "world \<Rightarrow> nat" where
  "row_count w = sum_list (map (\<lambda>t. length (snd t)) (storage w))"

text \<open>Whether the garden planner has to create the prospect: 1 if no stored prospect
  matches the address, else 0.\<close>

definition created :: "env \<Rightarrow> personalized_garden_request \<Rightarrow> world \<Rightarrow> nat" where
  "created e request w =
     (if select_ilike e w ''prospects'' ''street_address'' (''%'' @ address request @ ''%'') = []
      then 1 else 0)"

text \<open>The optional neighbourhood fields of the garden template and their defaults.\<close>

definition garden_defaults :: row where
  "garden_defaults = [(''usda_hardiness_zone'', JStr ''5b''), (''soil_type'', JStr ''loam'')]"


section \<open>Maintenance scheduling (routes/maintenance.py)\<close>

definition lawn_text_1 :: string where
  \<open>lawn_text_1 =
       ''\<newline>''
     @ ''Create a complete lawn maintenance schedule for the year.\<newline>''
     @ ''\<newline>''
     @ ''LAWN DETAILS:\<newline>''
     @ ''- Size: ''\<close>

definition lawn_text_2 :: string where
  \<open>lawn_text_2 =
       '' sqft\<newline>''
     @ ''- Grass Type: ''\<close>

definition lawn_text_3 :: string where
  \<open>lawn_text_3 =
       ''\<newline>''
     @ ''- Soil Type: ''\<close>

definition lawn_text_4 :: string where
  \<open>lawn_text_4 =
       ''\<newline>''
     @ ''- USDA Zone: ''\<close>

definition lawn_text_5 :: string where
  \<open>lawn_text_5 =
       ''\<newline>''
     @ ''\<newline>''
     @ ''Generate schedule with specific dates for:\<newline>''
     @ ''- Mowing (start/end dates, frequency)\<newline>''
     @ ''- Fertilization (4-step program with dates)\<newline>''
     @ ''- Aeration (spring and/or fall)\<newline>''
     @ ''- Overseeding (if needed)\<newline>''
     @ ''- Weed control applications\<newline>''
     @ ''- Grub control\<newline>''
     @ ''- Winterization\<newline>''
     @ ''\<newline>''
     @ ''Return JSON array of tasks with date, type, title, description.\<newline>''\<close>

text \<open>\<^verbatim>\<open>neighborhood.get(key, default) if neighborhood else fallback\<close>, for the joined
  \<^verbatim>\<open>neighborhoods\<close> value of a prospect row.\<close>

definition neighborhood_field :: "json \<Rightarrow> string \<Rightarrow> json \<Rightarrow> json \<Rightarrow> exn + json" where
  "neighborhood_field neighborhood key dflt fallback =
     (if truthy neighborhood
      then (case neighborhood of
              JObj d \<Rightarrow> Inr (py_get d key dflt)
            | other \<Rightarrow> Inl (Error ''AttributeError'' ''object has no attribute get''))
      else Inr fallback)"

definition lawn_context :: "env \<Rightarrow> json \<Rightarrow> string \<Rightarrow> int \<Rightarrow> exn + string" where
  "lawn_context e neighborhood grass_type lawn_size_sqft =
     (case neighborhood_field neighborhood ''soil_type'' JNull (JStr ''loam'') of
        Inl x \<Rightarrow> Inl x
      | Inr soil_type \<Rightarrow>
          (case neighborhood_field neighborhood ''usda_hardiness_zone'' (JStr ''5b'') (JStr ''5b'') of
             Inl x \<Rightarrow> Inl x
           | Inr usda_zone \<Rightarrow>
               Inr (lawn_text_1 @ py_str e (JNum (of_int lawn_size_sqft))
                  @ lawn_text_2 @ grass_type
                  @ lawn_text_3 @ py_str e soil_type
                  @ lawn_text_4 @ py_str e usda_zone
                  @ lawn_text_5)))"

definition lawn_schedule_try ::
  "env \<Rightarrow> string \<Rightarrow> string \<Rightarrow> int \<Rightarrow> world \<Rightarrow> (exn + json) \<times> world" where
  "lawn_schedule_try e prospect_id grass_type lawn_size_sqft w =
     (case single (select_eq w ''prospects'' ''id'' (JStr prospect_id)) of
        None \<Rightarrow> (Inl (Error ''AttributeError'' ''NoneType object has no attribute get''), w)
      | Some prospect \<Rightarrow>
          (let neighborhood = py_get prospect ''neighborhoods'' JNull
           in case lawn_context e neighborhood grass_type lawn_size_sqft of
                Inl x \<Rightarrow> (Inl x, w)
              | Inr context \<Rightarrow>
                  (case invoke e (Chat ''gpt-4'' ''You are a lawn care expert.'' context) w of
                     (Inl x, w1) \<Rightarrow> (Inl x, w1)
                   | (Inr content, w1) \<Rightarrow>
                       (case json_loads_str e content of
                          Inl x \<Rightarrow> (Inl x, w1)
                        | Inr schedule_data \<Rightarrow>
                            (case neighborhood_field neighborhood ''soil_type'' JNull (JStr ''loam'') of
                               Inl x \<Rightarrow> (Inl x, w1)
                             | Inr soil_type \<Rightarrow>
                                 (case neighborhood_field neighborhood ''usda_hardiness_zone''
                                         (JStr ''5b'') (JStr ''5b'') of
                                    Inl x \<Rightarrow> (Inl x, w1)
                                  | Inr usda_zone \<Rightarrow>
                                      (case handle_insert e ''lawn_maintenance_schedules''
                                              [(''prospect_id'', JStr prospect_id),
                                               (''lawn_size_sqft'', JNum (of_int lawn_size_sqft)),
                                               (''grass_type'', JStr grass_type),
                                               (''soil_type'', soil_type),
                                               (''usda_zone'', usda_zone),
                                               (''ai_schedule'', schedule_data)] w1 of
                                         (stored, w2) \<Rightarrow>
                                           (case py_index stored ''id'' of
                                              Inl x \<Rightarrow> (Inl x, w2)
                                            | Inr schedule_id \<Rightarrow>
                                                (Inr (JObj [(''success'', JBool True),
                                                            (''schedule_id'', schedule_id),
                                                            (''schedule'', schedule_data)]),
                                                 w2)))))))))"

definition generate_lawn_maintenance_schedule ::
  "env \<Rightarrow> string \<Rightarrow> string \<Rightarrow> int \<Rightarrow> world \<Rightarrow> (exn + json) \<times> world" where
  "generate_lawn_maintenance_schedule e prospect_id grass_type lawn_size_sqft w =
     (case lawn_schedule_try e prospect_id grass_type lawn_size_sqft w of
        (Inl x, w1) \<Rightarrow> (Inl (HTTPException 500 (str_exn x)), w1)
      | (Inr body, w1) \<Rightarrow> (Inr body, w1))"

text \<open>\<^verbatim>\<open>sum(float(day.get('rainfall_inches', 0)) for day in data)\<close>.\<close>

fun rainfall_sum :: "env \<Rightarrow> rat \<Rightarrow> row list \<Rightarrow> exn + rat" where
  "rainfall_sum e acc [] = Inr acc"
| "rainfall_sum e acc (day # days) =
     (case py_float e (py_get day ''rainfall_inches'' (JNum 0)) of
        Inl x \<Rightarrow> Inl x
      | Inr r \<Rightarrow> rainfall_sum e (acc + r) days)"

definition rainfall_summary_try :: "env \<Rightarrow> string \<Rightarrow> int \<Rightarrow> world \<Rightarrow> (exn + json) \<times> world" where
  "rainfall_summary_try e zip_code days w =
     (case days_ago e days of
        None \<Rightarrow> (Inl (Error ''OverflowError'' ''date value out of range''), w)
      | Some start_date \<Rightarrow>
          (let data = order_desc e ''date''
                        (filter (\<lambda>r. date_gte e (py_get r ''date'' JNull) start_date)
                           (select_eq w ''weather_data'' ''zip_code'' (JStr zip_code)))
           in case rainfall_sum e 0 data of
                Inl x \<Rightarrow> (Inl x, w)
              | Inr total_rainfall \<Rightarrow>
                  (Inr (JObj [(''zip_code'', JStr zip_code),
                              (''days'', JNum (of_int days)),
                              (''total_rainfall_inches'', JNum (round2 total_rainfall)),
                              (''daily_data'', JArr (map JObj data)),
                              (''watering_needed'', JBool (total_rainfall < 1))]),
                   w)))"

definition get_rainfall_summary :: "env \<Rightarrow> string \<Rightarrow> int \<Rightarrow> world \<Rightarrow> (exn + json) \<times> world" where
  "get_rainfall_summary e zip_code days w =
     (case rainfall_summary_try e zip_code days w of
        (Inl x, w1) \<Rightarrow> (Inl (HTTPException 500 (str_exn x)), w1)
      | (Inr body, w1) \<Rightarrow> (Inr body, w1))"

section \<open>Property analysis (routes/properties.py)\<close>

definition py_sub :: "json \<Rightarrow> json \<Rightarrow> exn + rat" where
  "py_sub a b =
     (case (py_number a, py_number b) of
        (Some x, Some y) \<Rightarrow> Inr (x - y)
      | other \<Rightarrow> Inl (Error ''TypeError'' ''unsupported operand type(s) for -''))"

definition estimate_lawn_area_try :: "string \<Rightarrow> world \<Rightarrow> (exn + json) \<times> world" where
  "estimate_lawn_area_try property_id w =
     (let property_data = single (select_eq w ''properties'' ''id'' (JStr property_id))
      in if no_data property_data then (Inl (HTTPException 404 ''Property not found''), w)
         else
           (let lot_size = py_get (the property_data) ''lot_size_sqft'' (JNum 0);
                building_area = py_get (the property_data) ''building_area_sqft'' (JNum 0)
            in case py_sub lot_size building_area of
                 Inl x \<Rightarrow> (Inl x, w)
               | Inr non_building_area \<Rightarrow>
                   (let estimated_lawn = non_building_area * (1 / 2)
                    in (Inr (JObj [(''property_id'', JStr property_id),
                                   (''lot_size_sqft'', lot_size),
                                   (''building_area_sqft'', building_area),
                                   (''estimated_lawn_area_sqft'', JNum (round2 estimated_lawn)),
                                   (''note'', JStr ''This is a basic estimation. For accurate measurements, consider aerial image analysis.'')]),
                        w))))"

definition estimate_lawn_area :: "string \<Rightarrow> world \<Rightarrow> (exn + json) \<times> world" where
  "estimate_lawn_area property_id w =
     (case estimate_lawn_area_try property_id w of
        (Inl x, w1) \<Rightarrow> (Inl (HTTPException 500 (''Lawn area estimation failed: '' @ str_exn x)), w1)
      | (Inr body, w1) \<Rightarrow> (Inr body, w1))"

section \<open>A concrete environment and datastore\<close>

text \<open>
  A mocked runtime in the manner of the repository's tests: the backend answers every chat
  call with the same text, which parses to an empty JSON object, and every embedding call
  with the same vector.
\<close>

definition fake_env :: env where
  "fake_env =
     \<lparr>backend = (\<lambda>c. case c of
                            Embedding model input \<Rightarrow> Inr (JArr [JNum 0, JNum 1])
                          | other \<Rightarrow> Inr (JStr ''{}'')),
      json_loads = (\<lambda>s. Some (JObj [])),
      json_dumps = (\<lambda>v. ''{}''),
      repr = (\<lambda>v. case v of JNum r \<Rightarrow> str_nat (nat \<lfloor>r\<rfloor>) | other \<Rightarrow> ''?''),
      format_thousands = (\<lambda>r. ''0''),
      title = (\<lambda>s. s),
      parse_float = (\<lambda>s. None),
      uuid4 = str_nat,
      ilike = (\<lambda>p v. False),
      date_gte = (\<lambda>v s. True),
      order_desc = (\<lambda>f rs. rs),
      days_ago = (\<lambda>d. Some ''2024-01-01'')\<rparr>"

definition leads_world :: world where
  "leads_world =
     \<lparr>storage = [(''leads'', [[(''id'', JStr ''L1''), (''first_name'', JStr ''Ann'')]])],
      uuids = 0,
      calls = []\<rparr>"



definition customers_world :: world where
  "customers_world =
     \<lparr>storage =
        [(''customers'', [[(''id'', JStr ''cust-1''), (''first_name'', JStr ''Ann''), (''last_name'', JStr ''Lee'')]]),
         (''customer_embeddings'', [])],
      uuids = 0,
      calls = []\<rparr>"

definition prospects_world :: world where
  "prospects_world =
     \<lparr>storage =
        [(''prospects'',
          [[(''id'', JStr ''pros-1''),
            (''street_address'', JStr ''12 Milledge Ave''),
            (''neighborhoods'', JObj [(''name'', JStr ''Five Points''), (''usda_hardiness_zone'', JStr ''8a'')])]])],
      uuids = 0,
      calls = []\<rparr>"

text \<open>The datastore, the backend and a request in the manner of \<^verbatim>\<open>tests/test_ads.py\<close>.\<close>

definition fake_supabase :: world where
  "fake_supabase =
     \<lparr>storage =
        [(''ad_campaigns'', [[(''id'', JStr ''camp-123''), (''name'', JStr ''Spring Push'')]]),
         (''neighborhoods'',
          [[(''id'', JStr ''hood-30606''),
            (''name'', JStr ''Five Points''),
            (''city'', JStr ''Athens''),
            (''state'', JStr ''GA''),
            (''zip_codes'', JArr [JStr ''30606'']),
            (''soil_type'', JStr ''clay loam''),
            (''usda_hardiness_zone'', JStr ''8a''),
            (''common_grass_types'', JArr [JStr ''Zoysia'', JStr ''Bermuda'']),
            (''avg_home_value'', JNum 325000),
            (''household_count'', JNum 1200)]]),
         (''ad_creatives'', []),
         (''ad_placements'', []),
         (''ad_performance'', [])],
      uuids = 0,
      calls = []\<rparr>"

definition fake_variant :: row where
  "fake_variant =
     [(''platform'', JStr ''facebook''),
      (''headline'', JStr ''Athens lawns stay lush''),
      (''body'', JStr ''Clay loam soils in Five Points hold 40% more moisture.''),
      (''cta'', JStr ''Get a Local Quote''),
      (''hashtags'', JArr [JStr ''AthensGA'', JStr ''30606''])]"

definition ads_env :: env where
  "ads_env =
     fake_env\<lparr>backend := (\<lambda>c. Inr (JStr ''variants'')),
              json_loads := (\<lambda>s. Some (JObj [(''variants'', JArr [JObj fake_variant])]))\<rparr>"

definition fake_request :: ad_generation_request where
  "fake_request =
     \<lparr>campaign_id = ''camp-123'',
      neighborhood_ids = [''hood-30606''],
      ad_type = ''image'',
      platforms = [''facebook''],
      tone = Some ''friendly'',
      promotion = None,
      use_model = Some ''gpt-4''\<rparr>"

definition fake_neighborhood :: row where
  "fake_neighborhood =
     [(''id'', JStr ''hood-30606''),
      (''name'', JStr ''Five Points''),
      (''city'', JStr ''Athens''),
      (''state'', JStr ''GA''),
      (''zip_codes'', JArr [JStr ''30606'']),
      (''soil_type'', JStr ''clay loam''),
      (''usda_hardiness_zone'', JStr ''8a''),
      (''common_grass_types'', JArr [JStr ''Zoysia'', JStr ''Bermuda'']),
      (''avg_home_value'', JNum 325000),
      (''household_count'', JNum 1200)]"

definition fake_context :: string where
  "fake_context =
     ad_text_1 @ ''image''
   @ ad_text_2 @ ''Five Points''
   @ ad_text_3 @ ''Athens''
   @ ad_text_4 @ ''GA''
   @ ad_text_5 @ ''clay loam''
   @ ad_text_6 @ ''8a''
   @ ad_text_7 @ ''Zoysia, Bermuda''
   @ ad_text_8 @ ''0''
   @ ad_text_9 @ ''1200''
   @ ad_text_10 @ ''friendly''
   @ ad_text_11 @ ''facebook''
   @ ad_text_12 @ ''image''
   @ ad_text_13 @ ad_text_14"

definition garden_request :: personalized_garden_request where
  "garden_request =
     \<lparr>address = ''12 Milledge Ave'',
      primary_goal = [''fresh salads''],
      time_commitment = ''low'',
      experience_level = ''beginner'',
      garden_size = ''small'',
      harvest_preferences = [''tomatoes'', ''basil''],
      favorite_recipes = None,
      email = ''ann@example.com'',
      phone = None\<rparr>"

text \<open>A backend that is down, and one whose single variant lacks \<^verbatim>\<open>cta\<close>.\<close>

definition down_env :: env where
  "down_env = fake_env\<lparr>backend := (\<lambda>c. Inl (Error ''APIConnectionError'' ''Connection error.''))\<rparr>"

definition short_variant :: row where
  "short_variant =
     [(''platform'', JStr ''facebook''),
      (''headline'', JStr ''Athens lawns stay lush''),
      (''body'', JStr ''Clay loam soils in Five Points hold 40% more moisture.'')]"

definition short_env :: env where
  "short_env =
     fake_env\<lparr>backend := (\<lambda>c. Inr (JStr ''variants'')),
              json_loads := (\<lambda>s. Some (JObj [(''variants'', JArr [JObj short_variant])]))\<rparr>"

text \<open>Requests that name a campaign, or a neighbourhood, the datastore does not hold.\<close>

definition absent_request :: ad_generation_request where
  "absent_request = fake_request\<lparr>campaign_id := ''camp-0'', neighborhood_ids := [''hood-0'']\<rparr>"

definition absent_hood_request :: ad_generation_request where
  "absent_hood_request = fake_request\<lparr>neighborhood_ids := [''hood-0'']\<rparr>"

section \<open>Properties\<close>

subsection \<open>Batch scoring\<close>

lemma table_rows_set_table_same: "table_rows (set_table name rs w) name = rs"
  by (simp add: table_rows_def set_table_def update_conv')

lemma table_rows_calls: "table_rows (w\<lparr>calls := c\<rparr>) name = table_rows w name"
  by (simp add: table_rows_def)

lemma score_lead_storage: "storage (snd (score_lead e lid w)) = storage w"
  by (auto simp: score_lead_def score_lead_try_def invoke_def Let_def
           split: sum.splits exn.splits json.splits prod.splits)

lemma score_lead_fst_cong:
  "single (select_eq w ''leads'' ''id'' (JStr lid)) = single (select_eq w' ''leads'' ''id'' (JStr lid))
   \<Longrightarrow> fst (score_lead e lid w) = fst (score_lead e lid w')"
  by (auto simp: score_lead_def score_lead_try_def invoke_def Let_def
           split: sum.splits exn.splits json.splits prod.splits)

lemma filter_distinct_key:
  "distinct (map f xs) \<Longrightarrow> x \<in> set xs \<Longrightarrow> filter (\<lambda>r. f r = f x) xs = [x]"
proof (induction xs)
  case Nil
  then show ?case by simp
next
  case (Cons a xs)
  show ?case
  proof (cases "a = x")
    case True
    have "filter (\<lambda>r. f r = f x) xs = []"
      using Cons.prems(1) True by (auto simp: filter_empty_conv) (metis imageI)
    then show ?thesis using True by simp
  next
    case False
    then have "x \<in> set xs" using Cons.prems(2) by simp
    moreover have "f a \<noteq> f x" using Cons.prems(1) \<open>x \<in> set xs\<close> by auto
    ultimately show ?thesis using Cons by simp
  qed
qed

lemma py_get_update_other: "k \<noteq> k' \<Longrightarrow> py_get (AList.update k' v d) k dflt = py_get d k dflt"
  by (simp add: py_get_def update_conv')


lemma py_get_dict_update_other:
  "k \<notin> fst ` set r \<Longrightarrow> py_get (dict_update d r) k dflt = py_get d k dflt"
  unfolding dict_update_def
  by (induction r arbitrary: d) (auto simp: py_get_update_other)

lemma filter_map_stable:
  "(\<And>x. x \<in> set xs \<Longrightarrow> P (g x) = P x) \<Longrightarrow> (\<And>x. x \<in> set xs \<Longrightarrow> P x \<Longrightarrow> g x = x)
   \<Longrightarrow> filter P (map g xs) = filter P xs"
  by (induction xs) auto

lemma score_lead_is_obj: "score_lead e lid w = (Inr b, w1) \<Longrightarrow> \<exists>res. b = JObj res"
  by (auto simp: score_lead_def score_lead_try_def invoke_def Let_def score_result_def
           split: sum.splits exn.splits json.splits prod.splits if_splits)

lemma select_eq_update_eq_other:
  assumes "v \<noteq> v'" "field \<notin> fst ` set changes"
  shows "select_eq (update_eq name changes field v' w) name field v = select_eq w name field v"
proof (cases "map_of (storage w) name")
  case None
  then show ?thesis by (simp add: update_eq_def)
next
  case (Some rs)
  have "filter (\<lambda>r. py_get r field JNull = v)
          (map (\<lambda>r. if py_get r field JNull = v' then dict_update r changes else r) rs)
        = filter (\<lambda>r. py_get r field JNull = v) rs"
    using assms by (intro filter_map_stable) (auto simp: py_get_dict_update_other)
  then show ?thesis
    using Some by (simp add: update_eq_def select_eq_def table_rows_set_table_same) (simp add: table_rows_def)
qed

lemma select_eq_storage:
  "storage w' = storage w \<Longrightarrow> select_eq w' name field v = select_eq w name field v"
  by (simp add: select_eq_def table_rows_def)

lemma batch_loop_general:
  assumes "distinct (map id_of leads)"
    and "\<forall>l \<in> set leads. \<exists>s. id_of l = JStr s \<and> map_of l ''id'' \<noteq> None
            \<and> single (select_eq w ''leads'' ''id'' (JStr s)) = Some l
            \<and> single (select_eq w0 ''leads'' ''id'' (JStr s)) = Some l"
  shows "\<exists>w'. batch_loop e leads n res w
           = (Inr (n + length (concat (map (outcome e w0) leads)),
                   res @ concat (map (outcome e w0) leads)), w')"
  using assms
proof (induction leads arbitrary: n res w)
  case Nil
  then show ?case by simp
next
  case (Cons lead leads)
  from Cons.prems(2) obtain s where s: "id_of lead = JStr s" "map_of lead ''id'' \<noteq> None"
      "single (select_eq w ''leads'' ''id'' (JStr s)) = Some lead"
      "single (select_eq w0 ''leads'' ''id'' (JStr s)) = Some lead"
    by auto
  have idx: "py_index lead ''id'' = Inr (JStr s)"
    using s(1,2) by (auto simp: py_index_def py_get_def split: option.splits)
  have same: "fst (score_lead e s w) = fst (score_lead e s w0)"
    using s(3,4) by (intro score_lead_fst_cong) simp
  obtain r w1 where sl: "score_lead e s w = (r, w1)" by (cases "score_lead e s w")
  have st: "storage w1 = storage w" using score_lead_storage[of e s w] sl by simp
  have rest: "\<And>w2. (\<And>t. t \<noteq> s \<Longrightarrow> select_eq w2 ''leads'' ''id'' (JStr t) = select_eq w ''leads'' ''id'' (JStr t)) \<Longrightarrow>
      \<forall>l \<in> set leads. \<exists>t. id_of l = JStr t \<and> map_of l ''id'' \<noteq> None
            \<and> single (select_eq w2 ''leads'' ''id'' (JStr t)) = Some l
            \<and> single (select_eq w0 ''leads'' ''id'' (JStr t)) = Some l"
  proof
    fix w2 l
    assume w2: "\<And>t. t \<noteq> s \<Longrightarrow> select_eq w2 ''leads'' ''id'' (JStr t) = select_eq w ''leads'' ''id'' (JStr t)"
      and l: "l \<in> set leads"
    from Cons.prems(2) l obtain t where t: "id_of l = JStr t" "map_of l ''id'' \<noteq> None"
        "single (select_eq w ''leads'' ''id'' (JStr t)) = Some l"
        "single (select_eq w0 ''leads'' ''id'' (JStr t)) = Some l"
      by auto
    have "t \<noteq> s" using Cons.prems(1) l s(1) t(1) by force
    then show "\<exists>t. id_of l = JStr t \<and> map_of l ''id'' \<noteq> None
            \<and> single (select_eq w2 ''leads'' ''id'' (JStr t)) = Some l
            \<and> single (select_eq w0 ''leads'' ''id'' (JStr t)) = Some l"
      using t w2 by auto
  qed
  have dist: "distinct (map id_of leads)" using Cons.prems(1) by simp
  show ?case
  proof (cases r)
    case (Inl x)
    then have item: "batch_item e lead w = (Inr None, w1)"
      using idx sl by (simp add: batch_item_def)
    have "fst (score_lead e s w0) = Inl x" using same sl Inl by simp
    then have out: "outcome e w0 lead = []"
      using s(1) by (simp add: outcome_def)
    have "\<forall>l \<in> set leads. \<exists>t. id_of l = JStr t \<and> map_of l ''id'' \<noteq> None
            \<and> single (select_eq w1 ''leads'' ''id'' (JStr t)) = Some l
            \<and> single (select_eq w0 ''leads'' ''id'' (JStr t)) = Some l"
      by (rule rest) (simp add: select_eq_storage[OF st])
    from Cons.IH[OF dist this, of n res] show ?thesis
      using item out by simp
  next
    case (Inr b)
    then obtain obj where b: "b = JObj obj" using score_lead_is_obj sl by blast
    let ?w2 = "update_eq ''leads''
                  [(''score'', py_get obj ''score'' JNull),
                   (''score_factors'', py_get obj ''factors'' JNull),
                   (''estimated_monthly_value'', py_get obj ''estimated_monthly_value'' JNull)]
                  ''id'' (JStr s) w1"
    have item: "batch_item e lead w = (Inr (Some b), ?w2)"
      using idx sl Inr b by (simp add: batch_item_def)
    have "fst (score_lead e s w0) = Inr b" using same sl Inr by simp
    then have out: "outcome e w0 lead = [b]"
      using s(1) by (simp add: outcome_def)
    have "\<forall>l \<in> set leads. \<exists>t. id_of l = JStr t \<and> map_of l ''id'' \<noteq> None
            \<and> single (select_eq ?w2 ''leads'' ''id'' (JStr t)) = Some l
            \<and> single (select_eq w0 ''leads'' ''id'' (JStr t)) = Some l"
    proof (rule rest)
      fix t assume "t \<noteq> s"
      then have "select_eq ?w2 ''leads'' ''id'' (JStr t) = select_eq w1 ''leads'' ''id'' (JStr t)"
        by (intro select_eq_update_eq_other) auto
      then show "select_eq ?w2 ''leads'' ''id'' (JStr t) = select_eq w ''leads'' ''id'' (JStr t)"
        by (simp add: select_eq_storage[OF st])
    qed
    from Cons.IH[OF dist this, of "n + 1" "res @ [b]"] show ?thesis
      using item out by simp
  qed
qed


lemma outcome_le: "length (outcome e w l) \<le> 1"
  by (simp add: outcome_def split: sum.splits)

lemma concat_le:
  "(\<And>x. length (g x) \<le> 1) \<Longrightarrow> length (concat (map g xs)) \<le> length xs"
proof (induction xs)
  case Nil
  then show ?case by simp
next
  case (Cons a xs)
  have "length (g a) \<le> 1" by (rule Cons.prems)
  moreover have "length (concat (map g xs)) \<le> length xs" using Cons by simp
  ultimately show ?case by simp
qed

lemma concat_less:
  assumes "\<And>x. length (g x) \<le> 1" "x \<in> set xs" "g x = []"
  shows "length (concat (map g xs)) < length xs"
proof -
  from assms(2) obtain ys zs where xs: "xs = ys @ x # zs" by (auto simp: in_set_conv_decomp)
  have "length (concat (map g ys)) \<le> length ys" "length (concat (map g zs)) \<le> length zs"
    using assms(1) by (auto intro: concat_le)
  then show ?thesis using xs assms(3) by simp
qed

lemma fetched_le:
  assumes "distinct (map id_of rows)"
  shows "length (filter (\<lambda>r. id_of r \<in> JStr ` S) rows) \<le> card S \<or> infinite S"
proof (cases "finite S")
  case True
  let ?ls = "filter (\<lambda>r. id_of r \<in> JStr ` S) rows"
  have d: "distinct (map id_of ?ls)" using assms by (rule distinct_map_filter)
  have "length ?ls = card (set (map id_of ?ls))" using d by (simp add: distinct_card del: set_map)
  also have "\<dots> \<le> card (JStr ` S)" using True by (intro card_mono) auto
  also have "\<dots> \<le> card S" using True by (rule card_image_le)
  finally show ?thesis by simp
next
  case False
  then show ?thesis by simp
qed

text \<open>
  Claim C5. The lead ids of the table are pairwise different (\<^verbatim>\<open>id\<close> is its key). When
  a batch of \<open>N\<close> identifiers holds one whose lead is missing or whose scoring fails, the
  handler still returns (status 200), \<^verbatim>\<open>scored_count\<close> is below \<open>N\<close> and equals the
  number of results, and the results are those of every fetched lead whose scoring
  succeeds, in order: a failing item is left out and the loop goes on.
\<close>

theorem batch_partial_failure:
  assumes uniq: "distinct (map (\<lambda>r. py_get r ''id'' JNull) (table_rows w ''leads''))"
    and bad: "lid \<in> set lead_ids" "fst (score_lead e lid w) = Inl x"
  shows "\<exists>msg n results w'.
           batch_score_leads e lead_ids w
             = (Inr (JObj [(''message'', msg), (''scored_count'', JNum (of_nat n)),
                           (''results'', JArr results)]), w')
         \<and> status_code (respond (fst (batch_score_leads e lead_ids w))) = 200
         \<and> n < length lead_ids
         \<and> n = length results
         \<and> results = concat (map (outcome e w) (select_in w ''leads'' ''id'' (map JStr lead_ids)))"
proof -
  let ?rows = "table_rows w ''leads''"
  let ?leads = "select_in w ''leads'' ''id'' (map JStr lead_ids)"
  let ?res = "concat (map (outcome e w) ?leads)"
  have leads: "?leads = filter (\<lambda>r. id_of r \<in> JStr ` set lead_ids) ?rows"
    by (simp add: select_in_def)
  have d: "distinct (map id_of ?leads)"
    unfolding leads using uniq by (rule distinct_map_filter)
  have inv: "\<forall>l \<in> set ?leads. \<exists>s. id_of l = JStr s \<and> map_of l ''id'' \<noteq> None
            \<and> single (select_eq w ''leads'' ''id'' (JStr s)) = Some l
            \<and> single (select_eq w ''leads'' ''id'' (JStr s)) = Some l"
  proof
    fix l assume l: "l \<in> set ?leads"
    then obtain s where s: "id_of l = JStr s" "l \<in> set ?rows" by (auto simp: leads)
    have "map_of l ''id'' \<noteq> None" using s(1) by (auto simp: py_get_def split: option.splits)
    moreover have "select_eq w ''leads'' ''id'' (JStr s) = [l]"
      using filter_distinct_key[OF uniq s(2)] s(1) by (simp add: select_eq_def)
    ultimately show "\<exists>s. id_of l = JStr s \<and> map_of l ''id'' \<noteq> None
            \<and> single (select_eq w ''leads'' ''id'' (JStr s)) = Some l
            \<and> single (select_eq w ''leads'' ''id'' (JStr s)) = Some l"
      using s(1) by (simp add: single_def)
  qed
  from batch_loop_general[OF d inv, of e 0 "[]"] obtain w' where
    loop: "batch_loop e ?leads 0 [] w = (Inr (length ?res, ?res), w')" by auto
  have run: "batch_score_leads e lead_ids w
      = (Inr (JObj [(''message'', JStr (''Scored '' @ str_nat (length ?res) @ '' of ''
                                            @ str_nat (length lead_ids) @ '' leads'')),
                    (''scored_count'', JNum (of_nat (length ?res))),
                    (''results'', JArr ?res)]), w')"
    using loop by (simp add: batch_score_leads_def)
  have le: "length ?res \<le> length ?leads" by (intro concat_le outcome_le)
  have less: "length ?res < length lead_ids"
  proof (cases "\<exists>l \<in> set ?rows. id_of l = JStr lid")
    case True
    then obtain l where l: "l \<in> set ?rows" "id_of l = JStr lid" by auto
    then have "l \<in> set ?leads" using bad(1) by (auto simp: leads)
    moreover have "outcome e w l = []" using bad(2) l(2) by (simp add: outcome_def)
    ultimately have "length ?res < length ?leads" by (intro concat_less[where x = l] outcome_le)
    moreover have "length ?leads \<le> card (set lead_ids)"
      using fetched_le[OF uniq, of "set lead_ids"] by (simp add: leads)
    moreover have "card (set lead_ids) \<le> length lead_ids" by (rule card_length)
    ultimately show ?thesis by linarith
  next
    case False
    then have "?leads = filter (\<lambda>r. id_of r \<in> JStr ` (set lead_ids - {lid})) ?rows"
      unfolding leads by (intro filter_cong) auto
    then have "length ?leads \<le> card (set lead_ids - {lid})"
      using fetched_le[OF uniq, of "set lead_ids - {lid}"] by simp
    moreover have "card (set lead_ids - {lid}) < card (set lead_ids)"
      using bad(1) by (intro card_Diff1_less) auto
    moreover have "card (set lead_ids) \<le> length lead_ids" by (rule card_length)
    ultimately show ?thesis using le by linarith
  qed
  show ?thesis
    using run less by (intro exI[of _ "JStr (''Scored '' @ str_nat (length ?res) @ '' of ''
                                            @ str_nat (length lead_ids) @ '' leads'')"]
                             exI[of _ "length ?res"] exI[of _ ?res] exI[of _ w']) simp
qed


theorem batch_partial_failure_witness:
  "distinct (map (\<lambda>r. py_get r ''id'' JNull) (table_rows leads_world ''leads''))
   \<and> ''L2'' \<in> set [''L1'', ''L2'']
   \<and> fst (score_lead fake_env ''L2'' leads_world) = Inl (HTTPException 404 ''Lead not found'')
   \<and> (\<exists>msg n results w'.
           batch_score_leads fake_env [''L1'', ''L2''] leads_world
             = (Inr (JObj [(''message'', msg), (''scored_count'', JNum (of_nat n)),
                           (''results'', JArr results)]), w')
         \<and> status_code (respond (fst (batch_score_leads fake_env [''L1'', ''L2''] leads_world))) = 200
         \<and> n < 2
         \<and> n = length results
         \<and> results = concat (map (outcome fake_env leads_world)
                         (select_in leads_world ''leads'' ''id'' (map JStr [''L1'', ''L2'']))))"
proof -
  have h1: "distinct (map (\<lambda>r. py_get r ''id'' JNull) (table_rows leads_world ''leads''))"
    by (simp add: leads_world_def table_rows_def py_get_def)
  have h2: "''L2'' \<in> set [''L1'', ''L2'']"
    by simp
  have h3: "fst (score_lead fake_env ''L2'' leads_world) = Inl (HTTPException 404 ''Lead not found'')"
    by (simp add: score_lead_def score_lead_try_def leads_world_def select_eq_def table_rows_def
          py_get_def single_def no_data_def)
  show ?thesis
    using batch_partial_failure [OF h1 h2 h3] h1 h2 h3 by simp
qed
subsection \<open>Rainfall summary\<close>




lemma rainfall_sum_defined:
  "\<forall>day \<in> set data. \<exists>r. py_float e (py_get day ''rainfall_inches'' (JNum 0)) = Inr r
   \<Longrightarrow> \<exists>t. rainfall_sum e acc data = Inr t"
  by (induction data arbitrary: acc) auto

lemma rainfall_summary_returns:
  assumes "days_ago e days = Some start_date"
    and "\<forall>day \<in> set (order_desc e ''date''
                         (filter (\<lambda>r. date_gte e (py_get r ''date'' JNull) start_date)
                            (select_eq w ''weather_data'' ''zip_code'' (JStr zip_code)))).
           \<exists>r. py_float e (py_get day ''rainfall_inches'' (JNum 0)) = Inr r"
  shows "\<exists>body. get_rainfall_summary e zip_code days w = (Inr body, w)"
proof -
  from rainfall_sum_defined[OF assms(2), of 0] obtain t where
    "rainfall_sum e 0 (order_desc e ''date''
                         (filter (\<lambda>r. date_gte e (py_get r ''date'' JNull) start_date)
                            (select_eq w ''weather_data'' ''zip_code'' (JStr zip_code)))) = Inr t"
    by blast
  then show ?thesis
    using assms(1) by (simp add: get_rainfall_summary_def rainfall_summary_try_def)
qed




subsection \<open>Lawn area estimate\<close>





lemma single_select_eq_nonempty:
  "single (select_eq w name field (JStr v)) = Some p \<Longrightarrow> p \<noteq> [] \<and> py_get p field JNull = JStr v"
proof -
  assume "single (select_eq w name field (JStr v)) = Some p"
  then have "p \<in> set (select_eq w name field (JStr v))"
    by (auto simp: single_def split: list.splits)
  then have "py_get p field JNull = JStr v" by (simp add: select_eq_def)
  then show ?thesis by (auto simp: py_get_def)
qed






subsection \<open>Customer embeddings\<close>

lemma table_rows_uuids: "table_rows (w\<lparr>uuids := n\<rparr>) name = table_rows w name"
  by (simp add: table_rows_def)

lemma find_no_conflict_key: "find (conflicts [] payload) rows = None"
  by (simp add: find_None_iff conflicts_def)

lemma handle_upsert_no_conflict_key:
  "handle_upsert e name payload None w = (target, w') \<Longrightarrow>
     table_rows w' name = table_rows w name @ [target]
     \<and> (\<forall>k. k \<noteq> ''id'' \<longrightarrow> py_get target k JNull = py_get payload k JNull)"
  by (auto simp: handle_upsert_def find_no_conflict_key ensure_id_def Let_def
        table_rows_set_table_same table_rows_uuids py_get_update_other split: if_splits prod.splits)

lemma customer_embedding_appends:
  assumes "generate_customer_embedding e customer_id w = (Inr body, w')"
  shows "\<exists>stored. table_rows w' ''customer_embeddings''
                   = table_rows w ''customer_embeddings'' @ [stored]
               \<and> py_get stored ''customer_id'' JNull = JStr customer_id"
proof -
  from assms obtain etext embedding w1 stored where
      up: "handle_upsert e ''customer_embeddings''
             [(''customer_id'', JStr customer_id), (''embedding'', embedding),
              (''embedding_text'', JStr (strip etext)), (''model'', JStr embedding_model)]
             None w1 = (stored, w')"
      and w1: "w1 = w\<lparr>calls := calls w @ [Embedding embedding_model (strip etext)]\<rparr>"
    by (auto simp: generate_customer_embedding_def customer_embedding_try_def invoke_def Let_def
             split: if_splits sum.splits prod.splits exn.splits)
  from handle_upsert_no_conflict_key[OF up] show ?thesis
    by (simp add: w1 table_rows_calls py_get_def)
qed

text \<open>
  Claim C4: two calls for the same customer should leave one embedding row. The route
  calls \<^verbatim>\<open>upsert\<close> without \<^verbatim>\<open>on_conflict\<close>, so the datastore has no conflict field to compare
  and appends: after two calls for customer \<^verbatim>\<open>cust-1\<close> the table holds two rows for it.
\<close>

theorem customer_embedding_twice:
  "map (\<lambda>r. py_get r ''customer_id'' JNull)
     (table_rows
        (snd (generate_customer_embedding fake_env ''cust-1''
               (snd (generate_customer_embedding fake_env ''cust-1'' customers_world))))
        ''customer_embeddings'')
   = [JStr ''cust-1'', JStr ''cust-1'']"
  by (simp add: generate_customer_embedding_def customer_embedding_try_def invoke_def Let_def
        customer_embedding_text_def py_join_def py_get_def no_data_def single_def select_eq_def
        table_rows_def customers_world_def fake_env_def handle_upsert_def find_no_conflict_key
        ensure_id_def set_table_def)


lemma strip_customer_id: "strip ''customer_id'' = ''customer_id''"
  by (simp add: strip_def is_space_def)

lemma conflict_key_customer_id: "map strip (split_on CHR '','' ''customer_id'') = [''customer_id'']"
  by (simp add: strip_customer_id)

lemma find_append_none: "find P xs = None \<Longrightarrow> find P (xs @ ys) = find P ys"
  by (induction xs) (auto split: if_splits)

lemma merge_first_append:
  "find P xs = None \<Longrightarrow> P y \<Longrightarrow> merge_first P r (xs @ [y]) = xs @ [dict_update y r]"
  by (induction xs) (auto split: if_splits)

text \<open>Given the conflict field, the upsert of the datastore does merge: the second
  payload is laid over the row stored by the first, and the table gains one row.\<close>

lemma upsert_on_conflict_merges:
  assumes p1: "py_get p1 ''customer_id'' JNull = JStr c"
    and p2: "py_get p2 ''customer_id'' JNull = JStr c"
    and fresh: "\<forall>r \<in> set (table_rows w name). py_get r ''customer_id'' JNull \<noteq> JStr c"
    and u1: "handle_upsert e name p1 (Some ''customer_id'') w = (r1, w1)"
    and u2: "handle_upsert e name p2 (Some ''customer_id'') w1 = (r2, w2)"
  shows "table_rows w2 name = table_rows w name @ [dict_update r1 p2] \<and> r2 = dict_update r1 p2"
proof -
  let ?P1 = "conflicts [''customer_id''] p1"
  let ?P2 = "conflicts [''customer_id''] p2"
  have none1: "find ?P1 (table_rows w name) = None"
    using fresh p1 by (auto simp: find_None_iff conflicts_def)
  have none2: "find ?P2 (table_rows w name) = None"
    using fresh p2 by (auto simp: find_None_iff conflicts_def)
  have r1: "r1 = fst (ensure_id e name p1 (uuids w))"
    and t1: "table_rows w1 name = table_rows w name @ [r1]"
    using u1 none1
    by (auto simp: handle_upsert_def strip_customer_id Let_def table_rows_set_table_same
          table_rows_uuids split: prod.splits)
  have c1: "py_get r1 ''customer_id'' JNull = JStr c"
    using p1 by (simp add: r1 ensure_id_def py_get_update_other)
  then have ne: "r1 \<noteq> []" by (auto simp: py_get_def)
  have hit: "?P2 r1" using c1 p2 by (simp add: conflicts_def)
  have f2: "find ?P2 (table_rows w1 name) = Some r1"
    using hit by (simp add: t1 find_append_none[OF none2])
  have m2: "merge_first ?P2 p2 (table_rows w1 name) = table_rows w name @ [dict_update r1 p2]"
    using hit by (simp add: t1 merge_first_append[OF none2])
  show ?thesis
    using u2 f2 m2 ne
    by (auto simp: handle_upsert_def strip_customer_id Let_def table_rows_set_table_same)
qed

subsection \<open>Prompt defaults\<close>

text \<open>In the ad template and in the garden template a neighbourhood without an optional
  field renders exactly as one that holds the field with its default, and rendering a
  neighbourhood without any field does not raise.\<close>

lemma py_get_append_default:
  "map_of d k = None \<Longrightarrow> py_get (d @ [(k, dflt)]) k dflt = py_get d k dflt"
  by (simp add: py_get_def map_add_def split: option.splits)

lemma py_get_append_other:
  "k' \<noteq> k \<Longrightarrow> py_get (d @ [(k, v)]) k' dflt = py_get d k' dflt"
  by (simp add: py_get_def map_add_def split: option.splits)

lemma ad_context_absent_is_default:
  assumes "(k, dflt) \<in> set ad_defaults" "map_of neighborhood k = None"
  shows "ad_context e request (neighborhood @ [(k, dflt)]) = ad_context e request neighborhood"
proof -
  have g: "py_get (neighborhood @ [(k, dflt)]) k' d' = py_get neighborhood k' d'"
    if "(k', d') \<in> set ad_defaults" for k' d'
  proof (cases "k' = k")
    case True
    then have "d' = dflt" using that assms(1) by (auto simp: ad_defaults_def)
    then show ?thesis using True assms(2) by (simp add: py_get_append_default)
  next
    case False
    then show ?thesis by (simp add: py_get_append_other)
  qed
  have eqs:
    "py_get (neighborhood @ [(k, dflt)]) ''name'' (JStr ''Unknown'') = py_get neighborhood ''name'' (JStr ''Unknown'')"
    "py_get (neighborhood @ [(k, dflt)]) ''city'' (JStr []) = py_get neighborhood ''city'' (JStr [])"
    "py_get (neighborhood @ [(k, dflt)]) ''state'' (JStr []) = py_get neighborhood ''state'' (JStr [])"
    "py_get (neighborhood @ [(k, dflt)]) ''soil_type'' (JStr ''mixed'') = py_get neighborhood ''soil_type'' (JStr ''mixed'')"
    "py_get (neighborhood @ [(k, dflt)]) ''usda_hardiness_zone'' (JStr ''5b'')
       = py_get neighborhood ''usda_hardiness_zone'' (JStr ''5b'')"
    "py_get (neighborhood @ [(k, dflt)]) ''common_grass_types'' (JArr [])
       = py_get neighborhood ''common_grass_types'' (JArr [])"
    "py_get (neighborhood @ [(k, dflt)]) ''avg_home_value'' (JNum 0) = py_get neighborhood ''avg_home_value'' (JNum 0)"
    "py_get (neighborhood @ [(k, dflt)]) ''household_count'' (JStr ''N/A'')
       = py_get neighborhood ''household_count'' (JStr ''N/A'')"
    by (simp_all add: g ad_defaults_def)
  show ?thesis
    unfolding ad_context_def eqs by (rule refl)
qed

lemma ad_context_renders_without_fields:
  "\<exists>prompt. ad_context e request [] = Inr prompt"
  by (simp add: ad_context_def py_get_def py_join_def py_format_thousands_def)

lemma garden_context_absent_is_default:
  assumes "(k, dflt) \<in> set garden_defaults" "map_of neighborhood k = None" "neighborhood \<noteq> []"
  shows "garden_context e request (Some (neighborhood @ [(k, dflt)]))
           = garden_context e request (Some neighborhood)"
proof -
  have g: "py_get (neighborhood @ [(k, dflt)]) k' d' = py_get neighborhood k' d'"
    if "(k', d') \<in> set garden_defaults" for k' d'
  proof (cases "k' = k")
    case True
    then have "d' = dflt" using that assms(1) by (auto simp: garden_defaults_def)
    then show ?thesis using True assms(2) by (simp add: py_get_append_default)
  next
    case False
    then show ?thesis by (simp add: py_get_append_other)
  qed
  have eqs:
    "py_get (neighborhood @ [(k, dflt)]) ''usda_hardiness_zone'' (JStr ''5b'')
       = py_get neighborhood ''usda_hardiness_zone'' (JStr ''5b'')"
    "py_get (neighborhood @ [(k, dflt)]) ''soil_type'' (JStr ''loam'') = py_get neighborhood ''soil_type'' (JStr ''loam'')"
    by (simp_all add: g garden_defaults_def)
  have nd: "no_data (Some (neighborhood @ [(k, dflt)])) = no_data (Some neighborhood)"
    using assms(3) by (simp add: no_data_def)
  show ?thesis
    unfolding garden_context_def nd option.sel eqs by (rule refl)
qed

lemma garden_context_without_neighborhood:
  "garden_context e request None
     = garden_text_1 @ address request
     @ garden_text_2 @ ''- USDA Zone: 5b (estimate)''
     @ garden_text_3 @ ''- Soil Type: loam (estimate)''
     @ garden_text_4 @ join_with '', '' (primary_goal request)
     @ garden_text_5 @ time_commitment request
     @ garden_text_6 @ experience_level request
     @ garden_text_7 @ garden_size request
     @ garden_text_8 @ join_with '', '' (harvest_preferences request)
     @ garden_text_9
     @ (case favorite_recipes request of
          None \<Rightarrow> []
        | Some recipes \<Rightarrow> if recipes = [] then [] else ''- Favorite Recipes: '' @ recipes)
     @ garden_text_10"
  by (simp add: garden_context_def no_data_def)

lemma lawn_context_soil_type_none:
  assumes "d \<noteq> []" "map_of d ''soil_type'' = None"
  shows "lawn_context e (JObj d) grass_type lawn_size_sqft
           = Inr (lawn_text_1 @ py_str e (JNum (of_int lawn_size_sqft))
                @ lawn_text_2 @ grass_type
                @ lawn_text_3 @ ''None''
                @ lawn_text_4 @ py_str e (py_get d ''usda_hardiness_zone'' (JStr ''5b''))
                @ lawn_text_5)"
  using assms by (simp add: lawn_context_def neighborhood_field_def py_get_def)

lemma lawn_context_without_neighborhood:
  "lawn_context e JNull grass_type lawn_size_sqft
     = Inr (lawn_text_1 @ py_str e (JNum (of_int lawn_size_sqft))
          @ lawn_text_2 @ grass_type
          @ lawn_text_3 @ ''loam''
          @ lawn_text_4 @ ''5b''
          @ lawn_text_5)"
  by (simp add: lawn_context_def neighborhood_field_def)

lemma lawn_schedule_soil_default:
  "neighborhood_field JNull ''soil_type'' JNull (JStr ''loam'') = Inr (JStr ''loam'')"
  by (simp add: neighborhood_field_def)

text \<open>
  Claim C8: an absent optional field should be rendered as its default. In the lawn
  schedule template a neighbourhood without \<^verbatim>\<open>soil_type\<close> is rendered as
  \<^verbatim>\<open>Soil Type: None\<close> (and stored as null), although the same expression falls back to
  \<^verbatim>\<open>loam\<close> when there is no neighbourhood at all.
\<close>

theorem lawn_schedule_soil_type_unresolved:
  "calls (snd (generate_lawn_maintenance_schedule fake_env ''pros-1'' ''Zoysia'' 5000 prospects_world))
     = [Chat ''gpt-4'' ''You are a lawn care expert.''
          (lawn_text_1 @ ''5000'' @ lawn_text_2 @ ''Zoysia'' @ lawn_text_3 @ ''None''
           @ lawn_text_4 @ ''8a'' @ lawn_text_5)]
   \<and> map (\<lambda>r. py_get r ''soil_type'' (JStr ''absent''))
        (table_rows
           (snd (generate_lawn_maintenance_schedule fake_env ''pros-1'' ''Zoysia'' 5000 prospects_world))
           ''lawn_maintenance_schedules'')
     = [JNull]"
  by (simp add: generate_lawn_maintenance_schedule_def lawn_schedule_try_def lawn_context_def
        neighborhood_field_def invoke_def json_loads_str_def handle_insert_def ensure_id_def
        set_table_def py_index_def Let_def py_get_def single_def select_eq_def table_rows_def
        prospects_world_def fake_env_def str_nat.simps digit_char_def)

subsection \<open>Ad generation\<close>

lemma table_rows_set_table_other:
  "other \<noteq> name \<Longrightarrow> table_rows (set_table name rs w) other = table_rows w other"
  by (simp add: table_rows_def set_table_def update_conv')

lemma calls_set_table: "calls (set_table name rs w) = calls w"
  by (simp add: set_table_def)

lemma handle_insert_effect:
  assumes "handle_insert e name data w = (stored, w1)"
  shows "table_rows w1 name = table_rows w name @ [stored]"
    and "calls w1 = calls w"
    and "k \<noteq> ''id'' \<Longrightarrow> py_get stored k d = py_get data k d"
    and "other \<noteq> name \<Longrightarrow> table_rows w1 other = table_rows w other"
  using assms
  by (auto simp: handle_insert_def ensure_id_def Let_def table_rows_set_table_same
        table_rows_set_table_other table_rows_uuids calls_set_table py_get_update_other
        split: if_splits prod.splits)

lemma creative_data_shape:
  assumes "creative_data e request neighborhood neighborhood_id context variant = Inr data"
  shows "\<exists>name headline body cta.
           data = [(''campaign_id'', JStr (campaign_id request)),
                   (''name'', name),
                   (''ad_type'', JStr (ad_type request)),
                   (''headline'', headline),
                   (''body_text'', body),
                   (''call_to_action'', cta),
                   (''neighborhood_id'', JStr neighborhood_id),
                   (''hyper_local_content'', variant),
                   (''generated_by'', JStr ''ai''),
                   (''ai_model'', opt_str (use_model request)),
                   (''generation_prompt'', JStr (take 500 context)),
                   (''status'', JStr ''draft'')]"
proof (cases variant)
  case (JObj v)
  show ?thesis
  proof (cases "py_index v ''platform''")
    case (Inl x)
    then show ?thesis using assms JObj by (simp add: creative_data_def)
  next
    case platform: (Inr p)
    show ?thesis
    proof (cases p)
      case (JStr s)
      show ?thesis
        using assms JObj platform JStr
        by (cases "py_index v ''headline''"; cases "py_index v ''body''"; cases "py_index v ''cta''")
           (auto simp: creative_data_def)
    qed (use assms JObj platform in \<open>simp_all add: creative_data_def\<close>)
  qed
qed (use assms in \<open>simp_all add: creative_data_def\<close>)


lemma creative_data_fields:
  assumes "creative_data e request neighborhood neighborhood_id context variant = Inr data"
  shows "py_get data ''generation_prompt'' JNull = JStr (take 500 context)"
    and "py_get data ''neighborhood_id'' JNull = JStr neighborhood_id"
    and "py_get data ''ai_model'' JNull = opt_str (use_model request)"
  using creative_data_shape[OF assms] by (auto simp: py_get_def)


lemma store_variants_effect:
  "store_variants e request neighborhood neighborhood_id context variants generated w = (r, w1)
   \<Longrightarrow> \<exists>new. table_rows w1 ''ad_creatives'' = table_rows w ''ad_creatives'' @ new
            \<and> calls w1 = calls w
            \<and> (\<forall>stored \<in> set new. tagged request neighborhood_id context stored)
            \<and> (\<forall>g. r = Inr g \<longrightarrow> length new = length variants \<and> g = generated @ map JObj new)"
proof (induction variants arbitrary: generated w)
  case Nil
  then show ?case by auto
next
  case (Cons variant variants)
  show ?case
  proof (cases "creative_data e request neighborhood neighborhood_id context variant")
    case (Inl x)
    then show ?thesis using Cons.prems by auto
  next
    case (Inr data)
    obtain stored w2 where ins: "handle_insert e ''ad_creatives'' data w = (stored, w2)"
      by (cases "handle_insert e ''ad_creatives'' data w")
    have rest: "store_variants e request neighborhood neighborhood_id context variants
                  (generated @ [JObj stored]) w2 = (r, w1)"
      using Cons.prems Inr ins by simp
    from Cons.IH[OF rest] obtain new where new:
        "table_rows w1 ''ad_creatives'' = table_rows w2 ''ad_creatives'' @ new"
        "calls w1 = calls w2"
        "\<forall>stored \<in> set new. tagged request neighborhood_id context stored"
        "\<forall>g. r = Inr g \<longrightarrow> length new = length variants \<and> g = (generated @ [JObj stored]) @ map JObj new"
      by blast
    have tg: "tagged request neighborhood_id context stored"
      using creative_data_fields[OF Inr] handle_insert_effect(3)[OF ins]
      by (simp add: tagged_def)
    show ?thesis
      using new tg handle_insert_effect(1,2)[OF ins]
      by (intro exI[of _ "stored # new"]) auto
  qed
qed

lemma length_ad_text_14: "length ad_text_14 = 2014"
  unfolding ad_text_14_def by code_simp

lemma ad_context_long: "ad_context e request neighborhood = Inr context \<Longrightarrow> 500 < length context"
proof -
  assume a: "ad_context e request neighborhood = Inr context"
  then obtain pre where "context = pre @ ad_text_14"
    unfolding ad_context_def by (auto split: sum.splits simp del: append_assoc simp add: append_assoc[symmetric])
  then show ?thesis by (simp add: length_ad_text_14)
qed


lemma prompt_of_ad_call: "prompt_of (ad_call request context) = context"
  by (simp add: ad_call_def)


lemma generate_for_neighborhood_effect:
  assumes "generate_for_neighborhood e request neighborhood neighborhood_id generated w = (r, w1)"
  shows "\<exists>new cs. table_rows w1 ''ad_creatives'' = table_rows w ''ad_creatives'' @ new
            \<and> calls w1 = calls w @ cs
            \<and> (\<forall>stored \<in> set new. \<exists>c \<in> set cs.
                   tagged request neighborhood_id (prompt_of c) stored \<and> 500 < length (prompt_of c))"
proof (cases "ad_context e request neighborhood")
  case (Inl x)
  then have "w1 = w" using assms by (simp add: generate_for_neighborhood_def)
  then show ?thesis by (intro exI[of _ "[]"]) simp
next
  case (Inr ctx)
  let ?c = "ad_call request ctx"
  let ?w2 = "w\<lparr>calls := calls w @ [?c]\<rparr>"
  have long: "500 < length (prompt_of ?c)"
    using ad_context_long[OF Inr] by (simp add: prompt_of_ad_call)
  have base: "table_rows ?w2 ''ad_creatives'' = table_rows w ''ad_creatives''"
    by (simp add: table_rows_calls)
  consider (stop) "w1 = ?w2"
    | (store) variants where
        "store_variants e request neighborhood neighborhood_id ctx variants generated ?w2 = (r, w1)"
    using assms Inr
    by (auto simp: generate_for_neighborhood_def invoke_def
             split: sum.splits json.splits prod.splits)
  then show ?thesis
  proof cases
    case stop
    then show ?thesis
      by (intro exI[of _ "[]"] exI[of _ "[?c]"]) (simp add: table_rows_calls)
  next
    case store
    from store_variants_effect[OF store] obtain new where new:
        "table_rows w1 ''ad_creatives'' = table_rows ?w2 ''ad_creatives'' @ new"
        "calls w1 = calls ?w2"
        "\<forall>stored \<in> set new. tagged request neighborhood_id ctx stored"
      by blast
    show ?thesis
      using new long base
      by (intro exI[of _ new] exI[of _ "[?c]"]) (simp add: prompt_of_ad_call)
  qed
qed

lemma neighborhoods_loop_effect:
  "neighborhoods_loop e request ids generated w = (r, w1)
   \<Longrightarrow> \<exists>new cs. table_rows w1 ''ad_creatives'' = table_rows w ''ad_creatives'' @ new
            \<and> calls w1 = calls w @ cs
            \<and> (\<forall>stored \<in> set new. \<exists>c \<in> set cs. \<exists>nid \<in> set ids.
                   tagged request nid (prompt_of c) stored \<and> 500 < length (prompt_of c))"
proof (induction ids arbitrary: generated w)
  case Nil
  then show ?case by simp
next
  case (Cons nid rest)
  let ?nb = "single (select_eq w ''neighborhoods'' ''id'' (JStr nid))"
  show ?case
  proof (cases "no_data ?nb")
    case True
    then have "neighborhoods_loop e request rest generated w = (r, w1)"
      using Cons.prems by (auto simp: no_data_def split: option.splits if_splits)
    from Cons.IH[OF this] show ?thesis by fastforce
  next
    case False
    then obtain nb where nb: "?nb = Some nb" "nb \<noteq> []"
      by (auto simp: no_data_def split: option.splits)
    obtain r2 w2 where g: "generate_for_neighborhood e request nb nid generated w = (r2, w2)"
      by (cases "generate_for_neighborhood e request nb nid generated w")
    from generate_for_neighborhood_effect[OF g] obtain new1 cs1 where one:
        "table_rows w2 ''ad_creatives'' = table_rows w ''ad_creatives'' @ new1"
        "calls w2 = calls w @ cs1"
        "\<forall>stored \<in> set new1. \<exists>c \<in> set cs1.
            tagged request nid (prompt_of c) stored \<and> 500 < length (prompt_of c)"
      by blast
    show ?thesis
    proof (cases r2)
      case (Inl x)
      then have "w1 = w2" using Cons.prems nb g by simp
      then show ?thesis using one
        by (intro exI[of _ new1] exI[of _ cs1]) auto
    next
      case (Inr g2)
      then have "neighborhoods_loop e request rest g2 w2 = (r, w1)"
        using Cons.prems nb g by simp
      from Cons.IH[OF this] obtain new2 cs2 where two:
          "table_rows w1 ''ad_creatives'' = table_rows w2 ''ad_creatives'' @ new2"
          "calls w1 = calls w2 @ cs2"
          "\<forall>stored \<in> set new2. \<exists>c \<in> set cs2. \<exists>nid \<in> set rest.
              tagged request nid (prompt_of c) stored \<and> 500 < length (prompt_of c)"
        by blast
      show ?thesis
        using one two
        by (intro exI[of _ "new1 @ new2"] exI[of _ "cs1 @ cs2"]) fastforce
    qed
  qed
qed

text \<open>
  Claim C7. Whatever the request and however it ends, every row it adds to
  \<^verbatim>\<open>ad_creatives\<close> stores as \<^verbatim>\<open>generation_prompt\<close> the first 500 characters of a prompt
  sent to the backend in this request; that prompt is longer than 500 characters, so what
  is stored is a strict prefix of it and never the whole prompt.
\<close>

theorem prompt_provenance_truncated:
  assumes "generate_neighborhood_ads e request w = (r, w1)"
  shows "\<exists>new cs. table_rows w1 ''ad_creatives'' = table_rows w ''ad_creatives'' @ new
            \<and> calls w1 = calls w @ cs
            \<and> (\<forall>stored \<in> set new. \<exists>c \<in> set cs.
                   py_get stored ''generation_prompt'' JNull = JStr (take 500 (prompt_of c))
                   \<and> strict_prefix (take 500 (prompt_of c)) (prompt_of c)
                   \<and> length (take 500 (prompt_of c)) \<le> 500)"
proof (cases "no_data (single (select_eq w ''ad_campaigns'' ''id'' (JStr (campaign_id request))))")
  case True
  then have "w1 = w" using assms by (simp add: generate_neighborhood_ads_def)
  then show ?thesis by (intro exI[of _ "[]"]) simp
next
  case False
  obtain r2 w2 where loop: "neighborhoods_loop e request (neighborhood_ids request) [] w = (r2, w2)"
    by (cases "neighborhoods_loop e request (neighborhood_ids request) [] w")
  have "w1 = w2"
    using assms False loop by (auto simp: generate_neighborhood_ads_def split: sum.splits)
  with neighborhoods_loop_effect[OF loop] obtain new cs where eff:
      "table_rows w1 ''ad_creatives'' = table_rows w ''ad_creatives'' @ new"
      "calls w1 = calls w @ cs"
      "\<forall>stored \<in> set new. \<exists>c \<in> set cs. \<exists>nid \<in> set (neighborhood_ids request).
          tagged request nid (prompt_of c) stored \<and> 500 < length (prompt_of c)"
    by blast
  have "\<forall>stored \<in> set new. \<exists>c \<in> set cs.
          py_get stored ''generation_prompt'' JNull = JStr (take 500 (prompt_of c))
          \<and> strict_prefix (take 500 (prompt_of c)) (prompt_of c)
          \<and> length (take 500 (prompt_of c)) \<le> 500"
  proof
    fix stored assume "stored \<in> set new"
    with eff(3) obtain c where c: "c \<in> set cs"
        "py_get stored ''generation_prompt'' JNull = JStr (take 500 (prompt_of c))"
        "500 < length (prompt_of c)"
      by (auto simp: tagged_def)
    have "take 500 (prompt_of c) \<noteq> prompt_of c"
    proof
      assume "take 500 (prompt_of c) = prompt_of c"
      then have "length (take 500 (prompt_of c)) = length (prompt_of c)" by simp
      then show False using c(3) by simp
    qed
    then have "strict_prefix (take 500 (prompt_of c)) (prompt_of c)"
      by (simp add: strict_prefix_def take_is_prefix)
    then show "\<exists>c \<in> set cs.
          py_get stored ''generation_prompt'' JNull = JStr (take 500 (prompt_of c))
          \<and> strict_prefix (take 500 (prompt_of c)) (prompt_of c)
          \<and> length (take 500 (prompt_of c)) \<le> 500"
      using c by auto
  qed
  then show ?thesis using eff(1,2) by blast
qed


lemma single_variant_run:
  assumes nids: "neighborhood_ids request = [nid]"
    and campaign: "\<not> no_data (single (select_eq w ''ad_campaigns'' ''id'' (JStr (campaign_id request))))"
    and nb: "single (select_eq w ''neighborhoods'' ''id'' (JStr nid)) = Some nb"
    and ctx: "ad_context e request nb = Inr prompt"
    and reply: "backend e (ad_call request prompt) = Inr (JStr content)"
    and parsed: "json_loads e content = Some (JObj answer)"
    and one: "py_get answer ''variants'' (JArr []) = JArr [JObj v]"
    and wf: "map_of v ''platform'' = Some (JStr platform)" "map_of v ''headline'' = Some headline"
            "map_of v ''body'' = Some body" "map_of v ''cta'' = Some cta"
  shows "\<exists>stored msg w1.
           generate_neighborhood_ads e request w
             = (Inr (JObj [(''message'', msg), (''ads'', JArr [JObj stored]),
                           (''model_used'', opt_str (use_model request))]), w1)
         \<and> table_rows w1 ''ad_creatives'' = table_rows w ''ad_creatives'' @ [stored]
         \<and> py_get stored ''neighborhood_id'' JNull = JStr nid
         \<and> py_get stored ''ai_model'' JNull = opt_str (use_model request)
         \<and> calls w1 = calls w @ [ad_call request prompt]"
proof -
  have ne: "nb \<noteq> []" using single_select_eq_nonempty[OF nb] by simp
  obtain data where data: "creative_data e request nb nid prompt (JObj v) = Inr data"
    using wf by (simp add: creative_data_def py_index_def)
  let ?w2 = "w\<lparr>calls := calls w @ [ad_call request prompt]\<rparr>"
  obtain stored w3 where ins: "handle_insert e ''ad_creatives'' data ?w2 = (stored, w3)"
    by (cases "handle_insert e ''ad_creatives'' data ?w2")
  have store: "store_variants e request nb nid prompt [JObj v] [] ?w2 = (Inr [JObj stored], w3)"
    using data ins by simp
  have gen: "generate_for_neighborhood e request nb nid [] w = (Inr [JObj stored], w3)"
    using ctx reply parsed one store
    by (simp add: generate_for_neighborhood_def invoke_def json_loads_str_def)
  have loop: "neighborhoods_loop e request [nid] [] w = (Inr [JObj stored], w3)"
    using nb ne gen by simp
  have run: "generate_neighborhood_ads e request w
      = (Inr (JObj [(''message'', JStr (''Generated '' @ str_nat (length [JObj stored])
                                         @ '' ad variants across ''
                                         @ str_nat (length (neighborhood_ids request))
                                         @ '' neighborhoods'')),
                    (''ads'', JArr [JObj stored]),
                    (''model_used'', opt_str (use_model request))]), w3)"
    using campaign loop nids by (simp add: generate_neighborhood_ads_def)
  have t: "table_rows w3 ''ad_creatives'' = table_rows w ''ad_creatives'' @ [stored]"
    using handle_insert_effect(1)[OF ins] by (simp add: table_rows_calls)
  have c: "calls w3 = calls w @ [ad_call request prompt]"
    using handle_insert_effect(2)[OF ins] by simp
  have f: "py_get stored ''neighborhood_id'' JNull = JStr nid"
      "py_get stored ''ai_model'' JNull = opt_str (use_model request)"
    using creative_data_fields(2,3)[OF data] handle_insert_effect(3)[OF ins] by simp_all
  show ?thesis using run t c f by blast
qed


text \<open>The prompt renders for every neighbourhood whose grass types are a list of strings
  and whose home value is a number, each of them possibly absent.\<close>

lemma ad_context_renders:
  assumes "py_get neighborhood ''common_grass_types'' (JArr []) = JArr grass_types"
    and "list_all is_str grass_types"
    and "py_number (py_get neighborhood ''avg_home_value'' (JNum 0)) = Some home_value"
  shows "\<exists>prompt. ad_context e request neighborhood = Inr prompt"
  using assms by (simp add: ad_context_def py_join_def py_format_thousands_def)

text \<open>
  Claim C6. A request for one existing campaign and one existing neighbourhood, whose
  prompt the backend answers with one variant that has \<^verbatim>\<open>platform\<close>, \<^verbatim>\<open>headline\<close>,
  \<^verbatim>\<open>body\<close> and \<^verbatim>\<open>cta\<close>, appends exactly one row to \<^verbatim>\<open>ad_creatives\<close>; the row carries
  the neighbourhood's identifier and the model name of the request.
\<close>

theorem one_variant_one_creative:
  assumes "neighborhood_ids request = [nid]"
    and "\<not> no_data (single (select_eq w ''ad_campaigns'' ''id'' (JStr (campaign_id request))))"
    and "single (select_eq w ''neighborhoods'' ''id'' (JStr nid)) = Some nb"
    and "ad_context e request nb = Inr prompt"
    and "backend e (ad_call request prompt) = Inr (JStr content)"
    and "json_loads e content = Some (JObj answer)"
    and "py_get answer ''variants'' (JArr []) = JArr [JObj v]"
    and "map_of v ''platform'' = Some (JStr platform)" "map_of v ''headline'' = Some headline"
        "map_of v ''body'' = Some body" "map_of v ''cta'' = Some cta"
  shows "\<exists>stored msg w1.
           generate_neighborhood_ads e request w
             = (Inr (JObj [(''message'', msg), (''ads'', JArr [JObj stored]),
                           (''model_used'', opt_str (use_model request))]), w1)
         \<and> table_rows w1 ''ad_creatives'' = table_rows w ''ad_creatives'' @ [stored]
         \<and> py_get stored ''neighborhood_id'' JNull = JStr nid
         \<and> py_get stored ''ai_model'' JNull = opt_str (use_model request)
         \<and> calls w1 = calls w @ [ad_call request prompt]"
  using assms by (rule single_variant_run)

lemma fake_neighborhood_found:
  "single (select_eq fake_supabase ''neighborhoods'' ''id'' (JStr ''hood-30606'')) = Some fake_neighborhood"
  by (simp add: fake_supabase_def fake_neighborhood_def select_eq_def table_rows_def single_def py_get_def)

lemma fake_campaign_found:
  "\<not> no_data (single (select_eq fake_supabase ''ad_campaigns'' ''id'' (JStr (campaign_id fake_request))))"
  by (simp add: fake_supabase_def fake_request_def select_eq_def table_rows_def single_def
        py_get_def no_data_def)

lemma fake_context_rendered: "ad_context ads_env fake_request fake_neighborhood = Inr fake_context"
  by (simp add: ad_context_def fake_neighborhood_def fake_request_def ads_env_def fake_env_def
        fake_context_def py_get_def py_join_def py_format_thousands_def opt_str_def
        str_nat.simps digit_char_def)

theorem one_variant_one_creative_witness:
  "neighborhood_ids fake_request = [''hood-30606'']
   \<and> backend ads_env (ad_call fake_request fake_context) = Inr (JStr ''variants'')
   \<and> json_loads ads_env ''variants'' = Some (JObj [(''variants'', JArr [JObj fake_variant])])
   \<and> (\<exists>stored msg w1.
           generate_neighborhood_ads ads_env fake_request fake_supabase
             = (Inr (JObj [(''message'', msg), (''ads'', JArr [JObj stored]),
                           (''model_used'', JStr ''gpt-4'')]), w1)
         \<and> table_rows w1 ''ad_creatives'' = [stored]
         \<and> py_get stored ''neighborhood_id'' JNull = JStr ''hood-30606''
         \<and> py_get stored ''ai_model'' JNull = JStr ''gpt-4''
         \<and> calls w1 = [ad_call fake_request fake_context])"
proof -
  have h1: "neighborhood_ids fake_request = [''hood-30606'']"
    by (simp add: fake_request_def)
  have h5: "backend ads_env (ad_call fake_request fake_context) = Inr (JStr ''variants'')"
    by (simp add: ads_env_def)
  have h6: "json_loads ads_env ''variants'' = Some (JObj [(''variants'', JArr [JObj fake_variant])])"
    by (simp add: ads_env_def)
  have h7: "py_get [(''variants'', JArr [JObj fake_variant])] ''variants'' (JArr []) = JArr [JObj fake_variant]"
    by (simp add: py_get_def)
  have h8: "map_of fake_variant ''platform'' = Some (JStr ''facebook'')"
    and h9: "map_of fake_variant ''headline'' = Some (JStr ''Athens lawns stay lush'')"
    and h10: "map_of fake_variant ''body'' = Some (JStr ''Clay loam soils in Five Points hold 40% more moisture.'')"
    and h11: "map_of fake_variant ''cta'' = Some (JStr ''Get a Local Quote'')"
    by (simp_all add: fake_variant_def)
  have m: "use_model fake_request = Some ''gpt-4''" by (simp add: fake_request_def)
  have t: "table_rows fake_supabase ''ad_creatives'' = []" "calls fake_supabase = []"
    by (simp_all add: fake_supabase_def table_rows_def)
  show ?thesis
    using one_variant_one_creative [OF h1 fake_campaign_found fake_neighborhood_found
            fake_context_rendered h5 h6 h7 h8 h9 h10 h11] h1 h5 h6
    by (simp add: m t opt_str_def)
qed

lemma fake_run_stores:
  "\<exists>stored. table_rows (snd (generate_neighborhood_ads ads_env fake_request fake_supabase)) ''ad_creatives''
             = [stored]"
proof -
  have h1: "neighborhood_ids fake_request = [''hood-30606'']"
    by (simp add: fake_request_def)
  have h5: "backend ads_env (ad_call fake_request fake_context) = Inr (JStr ''variants'')"
    by (simp add: ads_env_def)
  have h6: "json_loads ads_env ''variants'' = Some (JObj [(''variants'', JArr [JObj fake_variant])])"
    by (simp add: ads_env_def)
  have h7: "py_get [(''variants'', JArr [JObj fake_variant])] ''variants'' (JArr []) = JArr [JObj fake_variant]"
    by (simp add: py_get_def)
  have h8: "map_of fake_variant ''platform'' = Some (JStr ''facebook'')"
    and h9: "map_of fake_variant ''headline'' = Some (JStr ''Athens lawns stay lush'')"
    and h10: "map_of fake_variant ''body'' = Some (JStr ''Clay loam soils in Five Points hold 40% more moisture.'')"
    and h11: "map_of fake_variant ''cta'' = Some (JStr ''Get a Local Quote'')"
    by (simp_all add: fake_variant_def)
  have t: "table_rows fake_supabase ''ad_creatives'' = []"
    by (simp add: fake_supabase_def table_rows_def)
  from single_variant_run [OF h1 fake_campaign_found fake_neighborhood_found
            fake_context_rendered h5 h6 h7 h8 h9 h10 h11]
  show ?thesis by (auto simp: t)
qed

theorem prompt_provenance_truncated_witness:
  "generate_neighborhood_ads ads_env fake_request fake_supabase
     = (fst (generate_neighborhood_ads ads_env fake_request fake_supabase),
        snd (generate_neighborhood_ads ads_env fake_request fake_supabase))
   \<and> (\<exists>new cs.
          new \<noteq> []
        \<and> table_rows (snd (generate_neighborhood_ads ads_env fake_request fake_supabase)) ''ad_creatives''
            = table_rows fake_supabase ''ad_creatives'' @ new
        \<and> calls (snd (generate_neighborhood_ads ads_env fake_request fake_supabase))
            = calls fake_supabase @ cs
        \<and> (\<forall>stored \<in> set new. \<exists>c \<in> set cs.
               py_get stored ''generation_prompt'' JNull = JStr (take 500 (prompt_of c))
               \<and> strict_prefix (take 500 (prompt_of c)) (prompt_of c)
               \<and> length (take 500 (prompt_of c)) \<le> 500))"
proof -
  have h: "generate_neighborhood_ads ads_env fake_request fake_supabase
     = (fst (generate_neighborhood_ads ads_env fake_request fake_supabase),
        snd (generate_neighborhood_ads ads_env fake_request fake_supabase))"
    by simp
  have t: "table_rows fake_supabase ''ad_creatives'' = []"
    by (simp add: fake_supabase_def table_rows_def)
  from prompt_provenance_truncated [OF h] obtain new cs where n:
      "table_rows (snd (generate_neighborhood_ads ads_env fake_request fake_supabase)) ''ad_creatives''
            = table_rows fake_supabase ''ad_creatives'' @ new"
      "calls (snd (generate_neighborhood_ads ads_env fake_request fake_supabase))
            = calls fake_supabase @ cs"
      "\<forall>stored \<in> set new. \<exists>c \<in> set cs.
               py_get stored ''generation_prompt'' JNull = JStr (take 500 (prompt_of c))
               \<and> strict_prefix (take 500 (prompt_of c)) (prompt_of c)
               \<and> length (take 500 (prompt_of c)) \<le> 500"
    by blast
  have "new \<noteq> []" using fake_run_stores n(1) by (auto simp: t)
  then show ?thesis using h n by blast
qed

subsection \<open>What a request writes and calls\<close>

lemma row_count_update:
  "(\<Sum>t\<leftarrow>AList.update name ((case map_of al name of None \<Rightarrow> [] | Some rs \<Rightarrow> rs) @ [r]) al. length (snd t))
   = Suc (\<Sum>t\<leftarrow>al. length (snd t))"
  by (induction al) auto

lemma row_count_append:
  "row_count (set_table name (table_rows w name @ [r]) w) = Suc (row_count w)"
  using row_count_update[of name "storage w" r]
  by (simp add: row_count_def set_table_def table_rows_def)

lemma row_count_uuids: "row_count (w\<lparr>uuids := n\<rparr>) = row_count w"
  by (simp add: row_count_def)

lemma row_count_calls: "row_count (w\<lparr>calls := c\<rparr>) = row_count w"
  by (simp add: row_count_def)

lemma handle_insert_row_count:
  "handle_insert e name data w = (stored, w1) \<Longrightarrow> row_count w1 = Suc (row_count w)"
proof -
  assume a: "handle_insert e name data w = (stored, w1)"
  obtain row0 n where en: "ensure_id e name data (uuids w) = (row0, n)"
    by (cases "ensure_id e name data (uuids w)")
  have "w1 = set_table name (table_rows (w\<lparr>uuids := n\<rparr>) name @ [row0]) (w\<lparr>uuids := n\<rparr>)"
    using a en by (auto simp: handle_insert_def table_rows_uuids)
  then show ?thesis by (simp add: row_count_append row_count_uuids)
qed

lemma handle_insert_has_id:
  "handle_insert e name data w = (stored, w1) \<Longrightarrow> \<exists>v. py_index stored ''id'' = Inr v"
  by (auto simp: handle_insert_def ensure_id_def Let_def py_index_def py_get_def update_conv'
           split: if_splits prod.splits option.splits)

lemma score_lead_calls:
  "score_lead e lid w = (r, w1) \<Longrightarrow>
     storage w1 = storage w \<and> uuids w1 = uuids w
     \<and> (calls w1 = calls w \<or> (\<exists>c. calls w1 = calls w @ [c]))
     \<and> (\<forall>b. r = Inr b \<longrightarrow> (\<exists>c. calls w1 = calls w @ [c]))"
  by (auto simp: score_lead_def score_lead_try_def invoke_def Let_def
           split: sum.splits exn.splits json.splits prod.splits if_splits)


lemma garden_prospect_effect:
  assumes "garden_prospect e request w = (prospect, w1)"
  shows "calls w1 = calls w \<and> row_count w1 = row_count w + created e request w
          \<and> table_rows w1 ''garden_plans'' = table_rows w ''garden_plans''
          \<and> table_rows w1 ''leads'' = table_rows w ''leads''"
proof (cases "select_ilike e w ''prospects'' ''street_address'' (''%'' @ address request @ ''%'')")
  case Nil
  then have ins: "handle_insert e ''prospects'' (prospect_data request) w = (prospect, w1)"
    using assms by (simp add: garden_prospect_def)
  show ?thesis
    using handle_insert_effect(2)[OF ins] handle_insert_row_count[OF ins]
      handle_insert_effect(4)[OF ins, of "''garden_plans''"]
      handle_insert_effect(4)[OF ins, of "''leads''"] Nil
    by (simp add: created_def)
next
  case (Cons p ps)
  then have "w1 = w" using assms by (simp add: garden_prospect_def)
  then show ?thesis using Cons by (simp add: created_def)
qed

lemma garden_plan_try_effect:
  assumes "garden_plan_try e request w = (r, w')"
  shows "(\<exists>c. calls w' = calls w @ [c])
       \<and> (case r of
             Inl x \<Rightarrow> row_count w' = row_count w + created e request w
           | Inr b \<Rightarrow> row_count w' = row_count w + created e request w + 2
                      \<and> length (table_rows w' ''garden_plans'') = Suc (length (table_rows w ''garden_plans''))
                      \<and> length (table_rows w' ''leads'') = Suc (length (table_rows w ''leads'')))"
proof -
  obtain prospect w1 where gp: "garden_prospect e request w = (prospect, w1)"
    by (cases "garden_prospect e request w")
  note p = garden_prospect_effect[OF gp]
  let ?nb = "garden_neighborhood w1 prospect"
  let ?c = "Chat ''gpt-4'' garden_system (garden_context e request ?nb)"
  let ?w2 = "w1\<lparr>calls := calls w1 @ [?c]\<rparr>"
  have w2: "calls ?w2 = calls w @ [?c]" "row_count ?w2 = row_count w + created e request w"
      "table_rows ?w2 ''garden_plans'' = table_rows w ''garden_plans''"
      "table_rows ?w2 ''leads'' = table_rows w ''leads''"
    using p by (simp_all add: row_count_calls table_rows_calls)
  have early: "r = Inl x \<Longrightarrow> w' = ?w2 \<Longrightarrow> ?thesis" for x
    using w2 by simp
  show ?thesis
  proof (cases "backend e ?c")
    case (Inl x)
    then have "r = Inl x" "w' = ?w2"
      using assms gp by (simp_all add: garden_plan_try_def invoke_def Let_def)
    then show ?thesis by (rule early)
  next
    case reply: (Inr content)
    show ?thesis
    proof (cases "json_loads_str e content")
      case (Inl x)
      then have "r = Inl x" "w' = ?w2"
        using assms gp reply by (simp_all add: garden_plan_try_def invoke_def Let_def)
      then show ?thesis by (rule early)
    next
      case loads: (Inr plan_data)
      show ?thesis
      proof (cases "py_index prospect ''id''")
        case (Inl x)
        then have "r = Inl x" "w' = ?w2"
          using assms gp reply loads by (simp_all add: garden_plan_try_def invoke_def Let_def)
        then show ?thesis by (rule early)
      next
        case pid: (Inr prospect_id)
        obtain plan w3 where i1:
          "handle_insert e ''garden_plans'' (garden_plan_data prospect_id ?nb plan_data) ?w2 = (plan, w3)"
          by (cases "handle_insert e ''garden_plans'' (garden_plan_data prospect_id ?nb plan_data) ?w2")
        obtain leadr w4 where i2:
          "handle_insert e ''leads'' (lead_data request prospect_id) w3 = (leadr, w4)"
          by (cases "handle_insert e ''leads'' (lead_data request prospect_id) w3")
        obtain v where v: "py_index plan ''id'' = Inr v"
          using handle_insert_has_id[OF i1] by blast
        have res: "\<exists>b. r = Inr b" "w' = w4"
          using assms gp reply loads pid i1 i2 v
          by (auto simp: garden_plan_try_def invoke_def Let_def)
        have c: "calls w4 = calls w @ [?c]"
          using handle_insert_effect(2)[OF i1] handle_insert_effect(2)[OF i2] w2(1) by simp
        have n: "row_count w4 = row_count w + created e request w + 2"
          using handle_insert_row_count[OF i1] handle_insert_row_count[OF i2] w2(2) by simp
        have g: "table_rows w4 ''garden_plans'' = table_rows w ''garden_plans'' @ [plan]"
          using handle_insert_effect(1)[OF i1] handle_insert_effect(4)[OF i2, of "''garden_plans''"] w2(3)
          by simp
        have l: "table_rows w4 ''leads'' = table_rows w ''leads'' @ [leadr]"
          using handle_insert_effect(1)[OF i2] handle_insert_effect(4)[OF i1, of "''leads''"] w2(4)
          by simp
        show ?thesis using res c n g l by auto
      qed
    qed
  qed
qed

lemma fake_score_L1:
  "fst (score_lead fake_env ''L1'' leads_world)
     = Inr (JObj [(''lead_id'', JStr ''L1''),
                  (''score'', JNum 50),
                  (''estimated_monthly_value'', JNum 0),
                  (''factors'', JObj []),
                  (''explanation'', JStr []),
                  (''recommended_actions'', JArr [])])"
  by (simp add: score_lead_def score_lead_try_def score_lead_context_def invoke_def
        json_loads_str_def score_result_def leads_world_def fake_env_def select_eq_def
        table_rows_def single_def no_data_def py_get_def py_join_def)

lemma fake_score_L2:
  "score_lead fake_env ''L2'' leads_world = (Inl (HTTPException 404 ''Lead not found''), leads_world)"
  by (simp add: score_lead_def score_lead_try_def leads_world_def select_eq_def
        table_rows_def single_def no_data_def py_get_def)

lemma fake_garden_ok:
  "\<exists>b. fst (generate_personalized_plan fake_env garden_request prospects_world) = Inr b"
  by (simp add: generate_personalized_plan_def garden_plan_try_def garden_prospect_def
        select_ilike_def garden_neighborhood_def invoke_def json_loads_str_def handle_insert_def
        ensure_id_def set_table_def table_rows_def py_get_def py_index_def Let_def
        prospects_world_def fake_env_def prospect_data_def garden_plan_data_def lead_data_def)

lemma down_garden_fails:
  "\<exists>x. fst (generate_personalized_plan down_env garden_request prospects_world) = Inl x"
  by (simp add: generate_personalized_plan_def garden_plan_try_def garden_prospect_def
        select_ilike_def garden_neighborhood_def invoke_def handle_insert_def
        ensure_id_def set_table_def table_rows_def py_get_def Let_def
        prospects_world_def down_env_def fake_env_def prospect_data_def)

lemma created_fixture: "created fake_env garden_request prospects_world = 1"
    "created down_env garden_request prospects_world = 1"
  by (simp_all add: created_def select_ilike_def down_env_def fake_env_def)

lemma row_count_fixture: "row_count prospects_world = 1" "row_count leads_world = 1"
  by (simp_all add: row_count_def prospects_world_def leads_world_def)


lemma garden_effect:
  assumes "generate_personalized_plan e request w = (r, w')"
  shows "(\<exists>c. calls w' = calls w @ [c])
       \<and> (case r of
             Inl x \<Rightarrow> row_count w' = row_count w + created e request w
           | Inr b \<Rightarrow> row_count w' = row_count w + created e request w + 2
                      \<and> length (table_rows w' ''garden_plans'') = Suc (length (table_rows w ''garden_plans''))
                      \<and> length (table_rows w' ''leads'') = Suc (length (table_rows w ''leads'')))"
proof -
  obtain r0 w0 where t: "garden_plan_try e request w = (r0, w0)"
    by (cases "garden_plan_try e request w")
  have "w' = w0" "(\<exists>x. r = Inl x \<and> (\<exists>y. r0 = Inl y)) \<or> (\<exists>b. r = Inr b \<and> r0 = Inr b)"
    using assms t by (auto simp: generate_personalized_plan_def split: sum.splits)
  then show ?thesis using garden_plan_try_effect[OF t] by auto
qed

text \<open>
  Claim C2, amended. Lead scoring persists nothing: a successful request makes exactly one
  model call and leaves the datastore as it was, and so does a failed one. A successful
  garden plan request makes exactly one model call and persists one garden plan and one
  lead, and the prospect when none matched the address; a failed one persists nothing but
  that prospect.
\<close>

theorem persistence_per_request:
  "(case score_lead e lead_id w of
      (Inr b, w1) \<Rightarrow> storage w1 = storage w \<and> (\<exists>c. calls w1 = calls w @ [c])
    | (Inl x, w1) \<Rightarrow> storage w1 = storage w)
   \<and> (case generate_personalized_plan e request w of
        (Inr b, w1) \<Rightarrow>
           (\<exists>c. calls w1 = calls w @ [c])
           \<and> row_count w1 = row_count w + created e request w + 2
           \<and> length (table_rows w1 ''garden_plans'') = Suc (length (table_rows w ''garden_plans''))
           \<and> length (table_rows w1 ''leads'') = Suc (length (table_rows w ''leads''))
      | (Inl x, w1) \<Rightarrow> row_count w1 = row_count w + created e request w)"
proof -
  obtain r1 w1 where s: "score_lead e lead_id w = (r1, w1)" by (cases "score_lead e lead_id w")
  obtain r2 w2 where g: "generate_personalized_plan e request w = (r2, w2)"
    by (cases "generate_personalized_plan e request w")
  show ?thesis
    using score_lead_calls[OF s] garden_effect[OF g] s g
    by (auto split: sum.splits)
qed

theorem persistence_per_request_witness:
  "(\<exists>b. fst (score_lead fake_env ''L1'' leads_world) = Inr b)
   \<and> storage (snd (score_lead fake_env ''L1'' leads_world)) = storage leads_world
   \<and> (\<exists>c. calls (snd (score_lead fake_env ''L1'' leads_world)) = calls leads_world @ [c])
   \<and> (\<exists>b. fst (generate_personalized_plan fake_env garden_request prospects_world) = Inr b)
   \<and> row_count (snd (generate_personalized_plan fake_env garden_request prospects_world)) = 4
   \<and> (\<exists>c. calls (snd (generate_personalized_plan fake_env garden_request prospects_world))
             = calls prospects_world @ [c])
   \<and> (\<exists>x. fst (generate_personalized_plan down_env garden_request prospects_world) = Inl x)
   \<and> row_count (snd (generate_personalized_plan down_env garden_request prospects_world)) = 2"
proof -
  obtain b1 where b1: "fst (score_lead fake_env ''L1'' leads_world) = Inr b1"
    using fake_score_L1 by blast
  obtain b2 where b2: "fst (generate_personalized_plan fake_env garden_request prospects_world) = Inr b2"
    using fake_garden_ok by blast
  obtain x3 where x3: "fst (generate_personalized_plan down_env garden_request prospects_world) = Inl x3"
    using down_garden_fails by blast
  have one: "storage (snd (score_lead fake_env ''L1'' leads_world)) = storage leads_world
      \<and> (\<exists>c. calls (snd (score_lead fake_env ''L1'' leads_world)) = calls leads_world @ [c])"
    using persistence_per_request [where e = fake_env and lead_id = "''L1''" and w = leads_world
            and request = garden_request] b1
    by (cases "score_lead fake_env ''L1'' leads_world") auto
  have two: "row_count (snd (generate_personalized_plan fake_env garden_request prospects_world)) = 4
      \<and> (\<exists>c. calls (snd (generate_personalized_plan fake_env garden_request prospects_world))
             = calls prospects_world @ [c])"
    using persistence_per_request [where e = fake_env and lead_id = "''L1''" and w = prospects_world
            and request = garden_request] b2
    by (cases "generate_personalized_plan fake_env garden_request prospects_world")
       (auto simp: created_fixture row_count_fixture)
  have three: "row_count (snd (generate_personalized_plan down_env garden_request prospects_world)) = 2"
    using persistence_per_request [where e = down_env and lead_id = "''L1''" and w = prospects_world
            and request = garden_request] x3
    by (cases "generate_personalized_plan down_env garden_request prospects_world")
       (auto simp: created_fixture row_count_fixture)
  show ?thesis using b1 b2 x3 one two three by blast
qed

text \<open>
  Claim C2 as stated fails: scoring lead \<^verbatim>\<open>L1\<close> succeeds and no record is persisted.
\<close>

theorem one_record_per_success_counterexample:
  "fst (score_lead fake_env ''L1'' leads_world)
     = Inr (JObj [(''lead_id'', JStr ''L1''),
                  (''score'', JNum 50),
                  (''estimated_monthly_value'', JNum 0),
                  (''factors'', JObj []),
                  (''explanation'', JStr []),
                  (''recommended_actions'', JArr [])])
   \<and> storage (snd (score_lead fake_env ''L1'' leads_world)) = storage leads_world
   \<and> row_count (snd (score_lead fake_env ''L1'' leads_world)) = row_count leads_world"
  using fake_score_L1 score_lead_storage [of fake_env "''L1''" leads_world]
  by (simp add: row_count_def)

subsection \<open>Missing entities\<close>

lemma str_nat_404: "str_nat 404 = ''404''"
  by (simp add: str_nat.simps digit_char_def)

text \<open>The \<^verbatim>\<open>HTTPException(404)\<close> raised for a missing campaign, or a missing property, is
  caught by the handler's own \<^verbatim>\<open>except Exception\<close> and answered as a 500; lead scoring and
  the customer embedding re-raise it.\<close>

lemma missing_campaign_is_500:
  assumes "no_data (single (select_eq w ''ad_campaigns'' ''id'' (JStr (campaign_id request))))"
  shows "generate_neighborhood_ads e request w
           = (Inl (HTTPException 500 ''Ad generation failed: 404: Campaign not found''), w)"
  using assms by (simp add: generate_neighborhood_ads_def str_nat_404)

lemma missing_property_is_500:
  assumes "no_data (single (select_eq w ''properties'' ''id'' (JStr property_id)))"
  shows "estimate_lawn_area property_id w
           = (Inl (HTTPException 500 ''Lawn area estimation failed: 404: Property not found''), w)"
  using assms by (simp add: estimate_lawn_area_def estimate_lawn_area_try_def str_nat_404)

lemma absent_neighborhoods_skipped:
  "\<forall>nid \<in> set ids. no_data (single (select_eq w ''neighborhoods'' ''id'' (JStr nid)))
   \<Longrightarrow> neighborhoods_loop e request ids generated w = (Inr generated, w)"
  by (induction ids) (auto simp: no_data_def split: option.splits)

text \<open>
  Claim C1, amended. A missing lead in lead scoring and a missing customer in the customer
  embedding are answered with status 404, with the datastore and the call log untouched.
  A missing campaign in ad generation and a missing property in the lawn estimate end
  the request with an error, again with nothing called and nothing written. A missing
  neighbourhood in ad generation is no error: the loop skips it without a model call, and
  a request whose neighbourhoods are all missing succeeds with no ads.
\<close>

theorem missing_entity_before_any_call:
  "(no_data (single (select_eq w ''leads'' ''id'' (JStr lead_id)))
      \<longrightarrow> score_lead e lead_id w = (Inl (HTTPException 404 ''Lead not found''), w))
   \<and> (no_data (single (select_eq w ''customers'' ''id'' (JStr customer_id)))
      \<longrightarrow> generate_customer_embedding e customer_id w
            = (Inl (HTTPException 404 ''Customer not found''), w))
   \<and> (no_data (single (select_eq w ''ad_campaigns'' ''id'' (JStr (campaign_id request))))
      \<longrightarrow> (\<exists>s d. generate_neighborhood_ads e request w = (Inl (HTTPException s d), w)))
   \<and> (no_data (single (select_eq w ''properties'' ''id'' (JStr property_id)))
      \<longrightarrow> (\<exists>s d. estimate_lawn_area property_id w = (Inl (HTTPException s d), w)))
   \<and> (no_data (single (select_eq w ''neighborhoods'' ''id'' (JStr nid)))
      \<longrightarrow> neighborhoods_loop e request (nid # rest) generated w
            = neighborhoods_loop e request rest generated w)
   \<and> (\<not> no_data (single (select_eq w ''ad_campaigns'' ''id'' (JStr (campaign_id request))))
        \<and> (\<forall>nid \<in> set (neighborhood_ids request).
               no_data (single (select_eq w ''neighborhoods'' ''id'' (JStr nid))))
      \<longrightarrow> (\<exists>msg. generate_neighborhood_ads e request w
                   = (Inr (JObj [(''message'', msg), (''ads'', JArr []),
                                 (''model_used'', opt_str (use_model request))]), w)))"
proof (intro conjI impI)
  assume "no_data (single (select_eq w ''leads'' ''id'' (JStr lead_id)))"
  then show "score_lead e lead_id w = (Inl (HTTPException 404 ''Lead not found''), w)"
    by (simp add: score_lead_def score_lead_try_def)
next
  assume "no_data (single (select_eq w ''customers'' ''id'' (JStr customer_id)))"
  then show "generate_customer_embedding e customer_id w
            = (Inl (HTTPException 404 ''Customer not found''), w)"
    by (simp add: generate_customer_embedding_def customer_embedding_try_def)
next
  assume "no_data (single (select_eq w ''ad_campaigns'' ''id'' (JStr (campaign_id request))))"
  then show "\<exists>s d. generate_neighborhood_ads e request w = (Inl (HTTPException s d), w)"
    using missing_campaign_is_500 by blast
next
  assume "no_data (single (select_eq w ''properties'' ''id'' (JStr property_id)))"
  then show "\<exists>s d. estimate_lawn_area property_id w = (Inl (HTTPException s d), w)"
    using missing_property_is_500 by blast
next
  assume "no_data (single (select_eq w ''neighborhoods'' ''id'' (JStr nid)))"
  then show "neighborhoods_loop e request (nid # rest) generated w
            = neighborhoods_loop e request rest generated w"
    by (auto simp: no_data_def split: option.splits)
next
  assume a: "\<not> no_data (single (select_eq w ''ad_campaigns'' ''id'' (JStr (campaign_id request))))
        \<and> (\<forall>nid \<in> set (neighborhood_ids request).
               no_data (single (select_eq w ''neighborhoods'' ''id'' (JStr nid))))"
  then have "neighborhoods_loop e request (neighborhood_ids request) [] w = (Inr [], w)"
    by (intro absent_neighborhoods_skipped) simp
  then show "\<exists>msg. generate_neighborhood_ads e request w
                   = (Inr (JObj [(''message'', msg), (''ads'', JArr []),
                                 (''model_used'', opt_str (use_model request))]), w)"
    using a by (simp add: generate_neighborhood_ads_def)
qed

text \<open>
  Claim C1 as stated fails: an ad request for an existing campaign and a neighbourhood the
  datastore does not hold is answered with status 200.
\<close>

theorem absent_neighborhood_counterexample:
  "select_eq fake_supabase ''neighborhoods'' ''id'' (JStr ''hood-0'') = []
   \<and> neighborhood_ids absent_hood_request = [''hood-0'']
   \<and> status_code (respond (fst (generate_neighborhood_ads ads_env absent_hood_request fake_supabase))) = 200"
  by (simp add: generate_neighborhood_ads_def absent_hood_request_def fake_request_def
        fake_supabase_def select_eq_def table_rows_def single_def no_data_def py_get_def)


theorem missing_entity_before_any_call_witness:
  "score_lead ads_env ''L1'' fake_supabase = (Inl (HTTPException 404 ''Lead not found''), fake_supabase)
   \<and> generate_customer_embedding ads_env ''cust-1'' fake_supabase
       = (Inl (HTTPException 404 ''Customer not found''), fake_supabase)
   \<and> (\<exists>s d. generate_neighborhood_ads ads_env absent_request fake_supabase
              = (Inl (HTTPException s d), fake_supabase))
   \<and> (\<exists>s d. estimate_lawn_area ''prop-1'' fake_supabase = (Inl (HTTPException s d), fake_supabase))
   \<and> (\<exists>msg. generate_neighborhood_ads ads_env absent_hood_request fake_supabase
              = (Inr (JObj [(''message'', msg), (''ads'', JArr []), (''model_used'', JStr ''gpt-4'')]),
                 fake_supabase))"
proof -
  have h1: "no_data (single (select_eq fake_supabase ''leads'' ''id'' (JStr ''L1'')))"
    and h2: "no_data (single (select_eq fake_supabase ''customers'' ''id'' (JStr ''cust-1'')))"
    and h3: "no_data (single (select_eq fake_supabase ''ad_campaigns'' ''id'' (JStr (campaign_id absent_request))))"
    and h4: "no_data (single (select_eq fake_supabase ''properties'' ''id'' (JStr ''prop-1'')))"
    and h5: "no_data (single (select_eq fake_supabase ''neighborhoods'' ''id'' (JStr ''hood-0'')))"
    and h6: "\<not> no_data (single (select_eq fake_supabase ''ad_campaigns'' ''id''
                             (JStr (campaign_id absent_hood_request))))"
    and h7: "neighborhood_ids absent_hood_request = [''hood-0'']"
    and h8: "use_model absent_hood_request = Some ''gpt-4''"
    by (simp_all add: fake_supabase_def absent_request_def absent_hood_request_def fake_request_def
          select_eq_def table_rows_def single_def no_data_def py_get_def)
  have a: "score_lead ads_env ''L1'' fake_supabase = (Inl (HTTPException 404 ''Lead not found''), fake_supabase)
      \<and> generate_customer_embedding ads_env ''cust-1'' fake_supabase
          = (Inl (HTTPException 404 ''Customer not found''), fake_supabase)
      \<and> (\<exists>s d. generate_neighborhood_ads ads_env absent_request fake_supabase
              = (Inl (HTTPException s d), fake_supabase))
      \<and> (\<exists>s d. estimate_lawn_area ''prop-1'' fake_supabase = (Inl (HTTPException s d), fake_supabase))"
    using missing_entity_before_any_call [where e = ads_env and w = fake_supabase
            and lead_id = "''L1''" and customer_id = "''cust-1''" and request = absent_request
            and property_id = "''prop-1''" and nid = "''hood-0''"]
      h1 h2 h3 h4
    by blast
  have b: "\<exists>msg. generate_neighborhood_ads ads_env absent_hood_request fake_supabase
              = (Inr (JObj [(''message'', msg), (''ads'', JArr []), (''model_used'', JStr ''gpt-4'')]),
                 fake_supabase)"
    using missing_entity_before_any_call [where e = ads_env and w = fake_supabase
            and lead_id = "''L1''" and customer_id = "''cust-1''" and request = absent_hood_request
            and property_id = "''prop-1''" and nid = "''hood-0''"]
      h5 h6 h7 h8
    by (simp add: opt_str_def)
  show ?thesis using a b by blast
qed

subsection \<open>Replies are not validated\<close>

lemma creative_data_missing_key:
  assumes "k \<in> set [''platform'', ''headline'', ''body'', ''cta'']" "map_of v k = None"
  shows "\<exists>x. creative_data e request neighborhood neighborhood_id prompt (JObj v) = Inl x"
proof (cases "py_index v ''platform''")
  case (Inl x)
  then show ?thesis by (simp add: creative_data_def)
next
  case platform: (Inr p)
  show ?thesis
  proof (cases p)
    case (JStr s)
    have "k \<noteq> ''platform''" using platform assms(2) by (auto simp: py_index_def)
    then have "py_index v ''headline'' = Inl (Error ''KeyError'' ([CHR 0x27] @ ''headline'' @ [CHR 0x27]))
        \<or> py_index v ''body'' = Inl (Error ''KeyError'' ([CHR 0x27] @ ''body'' @ [CHR 0x27]))
        \<or> py_index v ''cta'' = Inl (Error ''KeyError'' ([CHR 0x27] @ ''cta'' @ [CHR 0x27]))"
      using assms by (auto simp: py_index_def)
    then show ?thesis
      using platform JStr
      by (cases "py_index v ''headline''"; cases "py_index v ''body''"; cases "py_index v ''cta''")
         (auto simp: creative_data_def)
  qed (use platform in \<open>simp_all add: creative_data_def\<close>)
qed

lemma store_variants_fails:
  "variant \<in> set variants
   \<Longrightarrow> creative_data e request neighborhood neighborhood_id prompt variant = Inl x
   \<Longrightarrow> \<exists>y w1. store_variants e request neighborhood neighborhood_id prompt variants generated w
               = (Inl y, w1)"
proof (induction variants arbitrary: generated w)
  case Nil
  then show ?case by simp
next
  case (Cons a variants)
  show ?case
  proof (cases "creative_data e request neighborhood neighborhood_id prompt a")
    case (Inl y)
    then show ?thesis by simp
  next
    case (Inr data)
    then have "variant \<in> set variants" using Cons.prems by auto
    from Cons.IH[OF this Cons.prems(2)] show ?thesis
      using Inr by (auto split: prod.splits)
  qed
qed

lemma ads_failure_is_500:
  "fst (generate_neighborhood_ads e request w) = Inl x \<Longrightarrow> \<exists>d. x = HTTPException 500 d"
  by (auto simp: generate_neighborhood_ads_def split: if_splits sum.splits prod.splits)


lemma score_reply_defaulted:
  assumes lead: "single (select_eq w ''leads'' ''id'' (JStr lead_id)) = Some lead"
    and ctx: "score_lead_context e lead = Inr prompt"
    and reply: "backend e (Chat ''gpt-4'' score_lead_system prompt) = Inr (JStr content)"
    and parsed: "json_loads e content = Some (JObj result)"
  shows "fst (score_lead e lead_id w)
           = Inr (JObj [(''lead_id'', JStr lead_id),
                        (''score'', case map_of result ''score'' of None \<Rightarrow> JNum 50 | Some v \<Rightarrow> v),
                        (''estimated_monthly_value'',
                           case map_of result ''estimated_monthly_value'' of None \<Rightarrow> JNum 0 | Some v \<Rightarrow> v),
                        (''factors'', case map_of result ''factors'' of None \<Rightarrow> JObj [] | Some v \<Rightarrow> v),
                        (''explanation'', case map_of result ''explanation'' of None \<Rightarrow> JStr [] | Some v \<Rightarrow> v),
                        (''recommended_actions'',
                           case map_of result ''recommended_actions'' of None \<Rightarrow> JArr [] | Some v \<Rightarrow> v)])"
proof -
  have ne: "\<not> no_data (Some lead)"
    using single_select_eq_nonempty[OF lead] by (simp add: no_data_def)
  show ?thesis
    using lead ne ctx reply parsed
    by (simp add: score_lead_def score_lead_try_def invoke_def json_loads_str_def score_result_def
          py_get_def)
qed

lemma short_variant_is_500:
  assumes nids: "neighborhood_ids request = [nid]"
    and campaign: "\<not> no_data (single (select_eq w ''ad_campaigns'' ''id'' (JStr (campaign_id request))))"
    and nb: "single (select_eq w ''neighborhoods'' ''id'' (JStr nid)) = Some nb"
    and ctx: "ad_context e request nb = Inr prompt"
    and reply: "backend e (ad_call request prompt) = Inr (JStr content)"
    and parsed: "json_loads e content = Some (JObj answer)"
    and vs: "py_get answer ''variants'' (JArr []) = JArr variants"
    and v: "JObj v \<in> set variants"
    and k: "k \<in> set [''platform'', ''headline'', ''body'', ''cta'']" "map_of v k = None"
  shows "status_code (respond (fst (generate_neighborhood_ads e request w))) = 500"
proof -
  have ne: "nb \<noteq> []" using single_select_eq_nonempty[OF nb] by simp
  obtain x where x: "creative_data e request nb nid prompt (JObj v) = Inl x"
    using creative_data_missing_key[OF k] by blast
  let ?w2 = "w\<lparr>calls := calls w @ [ad_call request prompt]\<rparr>"
  obtain y w3 where store: "store_variants e request nb nid prompt variants [] ?w2 = (Inl y, w3)"
    using store_variants_fails[OF v x] by blast
  have gen: "generate_for_neighborhood e request nb nid [] w = (Inl y, w3)"
    using ctx reply parsed vs store
    by (simp add: generate_for_neighborhood_def invoke_def json_loads_str_def)
  have loop: "neighborhoods_loop e request [nid] [] w = (Inl y, w3)"
    using nb ne gen by simp
  have "\<exists>z. fst (generate_neighborhood_ads e request w) = Inl z"
    using campaign loop nids by (simp add: generate_neighborhood_ads_def)
  then obtain z where z: "fst (generate_neighborhood_ads e request w) = Inl z" by blast
  from ads_failure_is_500[OF z] show ?thesis using z by auto
qed

text \<open>
  Claim C3, amended. No reply is checked against a schema. In lead scoring, whenever the
  reply parses to a JSON object the request succeeds, and each of the five promised keys
  of the response is taken from the reply, or from a fixed default (50, 0, \<^verbatim>\<open>{}\<close>, the
  empty string, \<^verbatim>\<open>[]\<close>) when the reply lacks it. In ad generation a variant without
  \<^verbatim>\<open>platform\<close>, \<^verbatim>\<open>headline\<close>, \<^verbatim>\<open>body\<close> or \<^verbatim>\<open>cta\<close> fails the request with status
  500.
\<close>

theorem replies_defaulted_not_validated:
  "(single (select_eq w ''leads'' ''id'' (JStr lead_id)) = Some lead
      \<and> score_lead_context e lead = Inr prompt
      \<and> backend e (Chat ''gpt-4'' score_lead_system prompt) = Inr (JStr content)
      \<and> json_loads e content = Some (JObj result)
    \<longrightarrow> fst (score_lead e lead_id w)
           = Inr (JObj [(''lead_id'', JStr lead_id),
                        (''score'', case map_of result ''score'' of None \<Rightarrow> JNum 50 | Some v \<Rightarrow> v),
                        (''estimated_monthly_value'',
                           case map_of result ''estimated_monthly_value'' of None \<Rightarrow> JNum 0 | Some v \<Rightarrow> v),
                        (''factors'', case map_of result ''factors'' of None \<Rightarrow> JObj [] | Some v \<Rightarrow> v),
                        (''explanation'', case map_of result ''explanation'' of None \<Rightarrow> JStr [] | Some v \<Rightarrow> v),
                        (''recommended_actions'',
                           case map_of result ''recommended_actions'' of None \<Rightarrow> JArr [] | Some v \<Rightarrow> v)]))
   \<and> (neighborhood_ids request = [nid]
      \<and> \<not> no_data (single (select_eq w ''ad_campaigns'' ''id'' (JStr (campaign_id request))))
      \<and> single (select_eq w ''neighborhoods'' ''id'' (JStr nid)) = Some nb
      \<and> ad_context e request nb = Inr ad_prompt
      \<and> backend e (ad_call request ad_prompt) = Inr (JStr ad_content)
      \<and> json_loads e ad_content = Some (JObj answer)
      \<and> py_get answer ''variants'' (JArr []) = JArr variants
      \<and> JObj v \<in> set variants
      \<and> k \<in> set [''platform'', ''headline'', ''body'', ''cta'']
      \<and> map_of v k = None
    \<longrightarrow> status_code (respond (fst (generate_neighborhood_ads e request w))) = 500)"
  using score_reply_defaulted short_variant_is_500 by blast

text \<open>
  Claim C3 as stated fails: a reply with none of the promised keys raises nothing; the
  request succeeds and answers with the default score.
\<close>

theorem schema_violation_counterexample:
  "json_loads fake_env ''{}'' = Some (JObj [])
   \<and> status_code (respond (fst (score_lead fake_env ''L1'' leads_world))) = 200
   \<and> py_get (body_of (respond (fst (score_lead fake_env ''L1'' leads_world)))) ''score'' JNull = JNum 50"
  using fake_score_L1 by (simp add: fake_env_def py_get_def)


lemma short_context_rendered: "ad_context short_env fake_request fake_neighborhood = Inr fake_context"
  by (simp add: ad_context_def fake_neighborhood_def fake_request_def short_env_def fake_env_def
        fake_context_def py_get_def py_join_def py_format_thousands_def opt_str_def
        str_nat.simps digit_char_def)

theorem replies_defaulted_not_validated_witness:
  "fst (score_lead fake_env ''L1'' leads_world)
     = Inr (JObj [(''lead_id'', JStr ''L1''),
                  (''score'', JNum 50),
                  (''estimated_monthly_value'', JNum 0),
                  (''factors'', JObj []),
                  (''explanation'', JStr []),
                  (''recommended_actions'', JArr [])])
   \<and> map_of short_variant ''cta'' = None
   \<and> status_code (respond (fst (generate_neighborhood_ads short_env fake_request fake_supabase))) = 500"
proof -
  let ?lead = "[(''id'', JStr ''L1''), (''first_name'', JStr ''Ann'')]"
  have l1: "single (select_eq leads_world ''leads'' ''id'' (JStr ''L1'')) = Some ?lead"
    by (simp add: leads_world_def select_eq_def table_rows_def single_def py_get_def)
  obtain prompt where l2: "score_lead_context fake_env ?lead = Inr prompt"
    by (simp add: score_lead_context_def py_join_def py_get_def)
  have l3: "backend fake_env (Chat ''gpt-4'' score_lead_system prompt) = Inr (JStr ''{}'')"
    by (simp add: fake_env_def)
  have l4: "json_loads fake_env ''{}'' = Some (JObj [])"
    by (simp add: fake_env_def)
  have a1: "neighborhood_ids fake_request = [''hood-30606'']"
    by (simp add: fake_request_def)
  have a5: "backend short_env (ad_call fake_request fake_context) = Inr (JStr ''variants'')"
    by (simp add: short_env_def)
  have a6: "json_loads short_env ''variants'' = Some (JObj [(''variants'', JArr [JObj short_variant])])"
    by (simp add: short_env_def)
  have a7: "py_get [(''variants'', JArr [JObj short_variant])] ''variants'' (JArr []) = JArr [JObj short_variant]"
    by (simp add: py_get_def)
  have a8: "JObj short_variant \<in> set [JObj short_variant]" by simp
  have a9: "''cta'' \<in> set [''platform'', ''headline'', ''body'', ''cta'']" by simp
  have a10: "map_of short_variant ''cta'' = None" by (simp add: short_variant_def)
  have one: "fst (score_lead fake_env ''L1'' leads_world)
     = Inr (JObj [(''lead_id'', JStr ''L1''),
                  (''score'', JNum 50),
                  (''estimated_monthly_value'', JNum 0),
                  (''factors'', JObj []),
                  (''explanation'', JStr []),
                  (''recommended_actions'', JArr [])])"
    using replies_defaulted_not_validated [where e = fake_env and w = leads_world
            and lead_id = "''L1''" and lead = ?lead and prompt = prompt and content = "''{}''"
            and result = "[]" and request = fake_request and k = "''cta''"]
      l1 l2 l3 l4
    by simp
  have two: "status_code (respond (fst (generate_neighborhood_ads short_env fake_request fake_supabase))) = 500"
    using replies_defaulted_not_validated [where e = short_env and w = fake_supabase
            and request = fake_request and nid = "''hood-30606''" and nb = fake_neighborhood
            and ad_prompt = fake_context and ad_content = "''variants''"
            and answer = "[(''variants'', JArr [JObj short_variant])]"
            and variants = "[JObj short_variant]" and v = short_variant and k = "''cta''"]
      a1 fake_campaign_found fake_neighborhood_found short_context_rendered a5 a6 a7 a8 a9 a10
    by blast
  show ?thesis using one two a10 by blast
qed


end
